theory Spec2Isabelle
  imports Complex_Main "HOL-Library.AList" "HOL-Library.Multiset"
begin

section \<open>Data model: cells, columns, frames\<close>

text \<open>
  The pipeline works on pandas data frames. A frame is modelled column by column, in
  the order of its columns, every column a list of cells. A cell is what
  \<^verbatim>\<open>.iloc[i]\<close> can hand back in this program: a float (\<open>Num\<close>), the float
  NaN, a timestamp (\<open>Day\<close>, an integer that orders the timestamps), the missing
  timestamp NaT, a string, or Python's \<open>None\<close>.

  Floats are modelled as exact reals plus NaN: rounding and overflow are not modelled,
  and there are no infinities, so a division by zero (which numpy answers with an
  infinity or NaN) gives the undefined value \<open>None\<close> of type \<open>float\<close>.
\<close>

datatype cell = Num real | NaN | Day int | NaT | Str string | PyNone

type_synonym column = "cell list"

type_synonym frame = "(string \<times> column) list"

type_synonym float = "real option"

datatype error = KeyError | TypeError | ValueError | IndexError | AttributeError | LibraryError

text \<open>What \<^verbatim>\<open>st.error\<close> is called with: which function reported, and the exception or the
  message it reported.\<close>

datatype log_entry =
    PreprocessFailed error
  | NoDateColumn
  | NoNavColumn
  | IndicatorsFailed error
  | MetricsFailed error
  | CrossFailed error
  | SummaryFailed error

definition then_e :: "error + 'a \<Rightarrow> ('a \<Rightarrow> error + 'b) \<Rightarrow> error + 'b" where
  "then_e m f = (case m of Inl e \<Rightarrow> Inl e | Inr x \<Rightarrow> f x)"

fun map_e :: "('a \<Rightarrow> error + 'b) \<Rightarrow> 'a list \<Rightarrow> error + 'b list" where
  "map_e f [] = Inr []"
| "map_e f (x # xs) =
     (case f x of Inl e \<Rightarrow> Inl e
      | Inr y \<Rightarrow> (case map_e f xs of Inl e \<Rightarrow> Inl e | Inr ys \<Rightarrow> Inr (y # ys)))"

subsection \<open>Frames\<close>

definition df_columns :: "frame \<Rightarrow> string list" where
  "df_columns df = map fst df"

text \<open>\<^verbatim>\<open>len(df)\<close>: the length of the index, read off the first column.\<close>

definition nrows :: "frame \<Rightarrow> nat" where
  "nrows df = (case df of [] \<Rightarrow> 0 | (_, c) # _ \<Rightarrow> length c)"

text \<open>\<^verbatim>\<open>df.empty\<close>: no column or no row.\<close>

definition df_empty :: "frame \<Rightarrow> bool" where
  "df_empty df = (df = [] \<or> nrows df = 0)"

text \<open>\<^verbatim>\<open>name in df.columns\<close>\<close>

definition has_col :: "frame \<Rightarrow> string \<Rightarrow> bool" where
  "has_col df name = (name \<in> set (df_columns df))"

text \<open>\<^verbatim>\<open>df[name]\<close>, a KeyError when there is no such column.\<close>

definition getitem :: "frame \<Rightarrow> string \<Rightarrow> error + column" where
  "getitem df name = (case map_of df name of None \<Rightarrow> Inl KeyError | Some c \<Rightarrow> Inr c)"

text \<open>Assigning a series to a column aligns it with the frame's index: with the
  positional index of this model, rows the series lacks are NaN and rows the frame lacks
  are dropped.\<close>

definition align :: "nat \<Rightarrow> column \<Rightarrow> column" where
  "align n c = take n c @ replicate (n - length c) NaN"

text \<open>\<^verbatim>\<open>df[name] = c\<close>: replaces the column in place or appends it as the last one.\<close>

definition setitem :: "frame \<Rightarrow> string \<Rightarrow> column \<Rightarrow> frame" where
  "setitem df name c = AList.update name (align (nrows df) c) df"

text \<open>\<^verbatim>\<open>c.iloc[i]\<close> with Python's indexing: a negative index counts from the end.\<close>

definition iloc :: "'a list \<Rightarrow> int \<Rightarrow> error + 'a" where
  "iloc c i =
     (let n = int (length c); j = (if i < 0 then n + i else i)
      in if 0 \<le> j \<and> j < n then Inr (c ! nat j) else Inl IndexError)"

text \<open>\<^verbatim>\<open>df[mask]\<close>: the rows where the boolean series holds, in every column.\<close>

definition keep_rows :: "bool list \<Rightarrow> frame \<Rightarrow> frame" where
  "keep_rows keep df = map (\<lambda>(name, c). (name, map fst (filter snd (zip c keep)))) df"

text \<open>\<^verbatim>\<open>df.take(idx)\<close>: the rows at the given positions, in every column.\<close>

definition take_rows :: "nat list \<Rightarrow> frame \<Rightarrow> frame" where
  "take_rows idx df = map (\<lambda>(name, c). (name, map (\<lambda>i. c ! i) idx)) df"

text \<open>\<^verbatim>\<open>pd.isna\<close>\<close>

fun isna :: "cell \<Rightarrow> bool" where
  "isna NaN = True"
| "isna NaT = True"
| "isna PyNone = True"
| "isna _ = False"

subsection \<open>Floats\<close>

text \<open>A cell read where the program does float arithmetic or compares with a number:
  anything but a float raises a TypeError. (Python compares two strings or two timestamps
  with each other without raising; the indicator and price columns never hold them, and
  the model gives a TypeError there too.)\<close>

fun as_float :: "cell \<Rightarrow> error + float" where
  "as_float (Num r) = Inr (Some r)"
| "as_float NaN = Inr None"
| "as_float _ = Inl TypeError"

fun of_float :: "float \<Rightarrow> cell" where
  "of_float (Some r) = Num r"
| "of_float None = NaN"

definition floats_of :: "column \<Rightarrow> error + float list" where
  "floats_of c = map_e as_float c"

definition fadd :: "float \<Rightarrow> float \<Rightarrow> float" where
  "fadd a b = (case (a, b) of (Some x, Some y) \<Rightarrow> Some (x + y) | _ \<Rightarrow> None)"

definition fsub :: "float \<Rightarrow> float \<Rightarrow> float" where
  "fsub a b = (case (a, b) of (Some x, Some y) \<Rightarrow> Some (x - y) | _ \<Rightarrow> None)"

definition fmul :: "float \<Rightarrow> float \<Rightarrow> float" where
  "fmul a b = (case (a, b) of (Some x, Some y) \<Rightarrow> Some (x * y) | _ \<Rightarrow> None)"

definition fdiv :: "float \<Rightarrow> float \<Rightarrow> float" where
  "fdiv a b = (case (a, b) of (Some x, Some y) \<Rightarrow> (if y = 0 then None else Some (x / y)) | _ \<Rightarrow> None)"

definition fabs :: "float \<Rightarrow> float" where
  "fabs a = map_option abs a"

text \<open>Comparisons with NaN are false, \<^verbatim>\<open>!=\<close> is true.\<close>

definition flt :: "float \<Rightarrow> float \<Rightarrow> bool" where
  "flt a b = (case (a, b) of (Some x, Some y) \<Rightarrow> x < y | _ \<Rightarrow> False)"

definition fle :: "float \<Rightarrow> float \<Rightarrow> bool" where
  "fle a b = (case (a, b) of (Some x, Some y) \<Rightarrow> x \<le> y | _ \<Rightarrow> False)"

definition fgt :: "float \<Rightarrow> float \<Rightarrow> bool" where
  "fgt a b = flt b a"

definition fge :: "float \<Rightarrow> float \<Rightarrow> bool" where
  "fge a b = fle b a"

definition fne :: "float \<Rightarrow> float \<Rightarrow> bool" where
  "fne a b = (case (a, b) of (Some x, Some y) \<Rightarrow> x \<noteq> y | _ \<Rightarrow> True)"

text \<open>The comparisons of two cells, as the program writes them on \<^verbatim>\<open>.iloc\<close> values.\<close>

definition cell_cmp :: "(float \<Rightarrow> float \<Rightarrow> bool) \<Rightarrow> cell \<Rightarrow> cell \<Rightarrow> error + bool" where
  "cell_cmp rel a b = then_e (as_float a) (\<lambda>x. then_e (as_float b) (\<lambda>y. Inr (rel x y)))"

subsection \<open>Column names\<close>

definition digit_char :: "nat \<Rightarrow> char" where
  "digit_char d =
     (if d = 0 then CHR ''0'' else if d = 1 then CHR ''1'' else if d = 2 then CHR ''2''
      else if d = 3 then CHR ''3'' else if d = 4 then CHR ''4'' else if d = 5 then CHR ''5''
      else if d = 6 then CHR ''6'' else if d = 7 then CHR ''7'' else if d = 8 then CHR ''8''
      else CHR ''9'')"

function str_nat :: "nat \<Rightarrow> string" where
  "str_nat n = (if n < 10 then [digit_char n] else str_nat (n div 10) @ [digit_char (n mod 10)])"
  by pat_completeness auto
termination
  by (relation "measure id") auto

declare str_nat.simps [simp del]

text \<open>\<^verbatim>\<open>str(i)\<close> of a Python integer, as an f-string prints it.\<close>

definition str_int :: "int \<Rightarrow> string" where
  "str_int i = (if i < 0 then CHR ''-'' # str_nat (nat (- i)) else str_nat (nat i))"

text \<open>\<^verbatim>\<open>f'MA{n}'\<close> and \<^verbatim>\<open>f'RSI{n}'\<close>\<close>

definition ma_col :: "int \<Rightarrow> string" where
  "ma_col n = ''MA'' @ str_int n"

definition rsi_col_name :: "int \<Rightarrow> string" where
  "rsi_col_name n = ''RSI'' @ str_int n"

section \<open>indicators.py: detect_golden_cross_death_cross\<close>

text \<open>A \<^verbatim>\<open>for\<close> loop over indices whose body may raise: the first exception ends it.\<close>

fun for_each :: "(nat \<Rightarrow> 'a \<Rightarrow> error + 'a) \<Rightarrow> nat list \<Rightarrow> 'a \<Rightarrow> error + 'a" where
  "for_each f [] a = Inr a"
| "for_each f (i # ks) a = (case f i a of Inl e \<Rightarrow> Inl e | Inr a' \<Rightarrow> for_each f ks a')"

text \<open>\<^verbatim>\<open>a and b\<close> on conditions that may raise: \<open>b\<close> is only evaluated when \<open>a\<close> holds.\<close>

definition and_e :: "error + bool \<Rightarrow> error + bool \<Rightarrow> error + bool" where
  "and_e a b = then_e a (\<lambda>x. if x then b else Inr False)"

text \<open>The body of the loop at index \<open>i\<close>: the golden-cross test, else the death-cross
  test; the date column is read only when an event is appended.\<close>

definition cross_step ::
  "frame \<Rightarrow> string \<Rightarrow> string \<Rightarrow> nat \<Rightarrow> cell list \<times> cell list \<Rightarrow> error + cell list \<times> cell list" where
  "cross_step df short_col long_col i acc =
     (let s = (\<lambda>k. then_e (getitem df short_col) (\<lambda>c. iloc c (int k)));
          l = (\<lambda>k. then_e (getitem df long_col) (\<lambda>c. iloc c (int k)));
          cmp = (\<lambda>rel a b. then_e a (\<lambda>x. then_e b (\<lambda>y. cell_cmp rel x y)));
          date_i = then_e (getitem df ''date'') (\<lambda>c. iloc c (int i))
      in then_e (and_e (cmp fle (s (i - 1)) (l (i - 1))) (cmp fgt (s i) (l i)))
           (\<lambda>golden.
              if golden then then_e date_i (\<lambda>d. Inr (fst acc @ [d], snd acc))
              else then_e (and_e (cmp fge (s (i - 1)) (l (i - 1))) (cmp flt (s i) (l i)))
                (\<lambda>death.
                   if death then then_e date_i (\<lambda>d. Inr (fst acc, snd acc @ [d]))
                   else Inr acc)))"

text \<open>The \<^verbatim>\<open>try\<close> block shared by \<^verbatim>\<open>detect_golden_cross_death_cross\<close> and
  \<^verbatim>\<open>detect_cross_points\<close> (visualization.py), which are the same code from the column
  test on.\<close>

definition cross_body :: "frame \<Rightarrow> int \<Rightarrow> int \<Rightarrow> error + cell list \<times> cell list" where
  "cross_body df short_ma long_ma =
     (let short_col = ma_col short_ma; long_col = ma_col long_ma
      in if \<not> has_col df short_col \<or> \<not> has_col df long_col then Inr ([], [])
         else for_each (cross_step df short_col long_col) [1..<nrows df] ([], []))"

definition detect_golden_cross_death_cross ::
  "frame option \<Rightarrow> int \<Rightarrow> int \<Rightarrow> (cell list \<times> cell list) \<times> log_entry list" where
  "detect_golden_cross_death_cross df short_ma long_ma =
     (case df of
        None \<Rightarrow> (([], []), [])
      | Some d \<Rightarrow>
          if df_empty d then (([], []), [])
          else (case cross_body d short_ma long_ma of
                  Inr r \<Rightarrow> (r, [])
                | Inl e \<Rightarrow> (([], []), [CrossFailed e])))"

text \<open>visualization.py: no test for \<^verbatim>\<open>None\<close> or an empty frame, and the exception is
  dropped without a message; \<^verbatim>\<open>None.columns\<close> is an AttributeError, caught like the
  rest.\<close>

definition detect_cross_points :: "frame option \<Rightarrow> int \<Rightarrow> int \<Rightarrow> cell list \<times> cell list" where
  "detect_cross_points df short_ma long_ma =
     (case (case df of None \<Rightarrow> Inl AttributeError | Some d \<Rightarrow> cross_body d short_ma long_ma) of
        Inr r \<Rightarrow> r
      | Inl e \<Rightarrow> ([], []))"

section \<open>indicators.py: calculate_performance_metrics\<close>

subsection \<open>Series operations of pandas and numpy\<close>

text \<open>\<^verbatim>\<open>.dropna()\<close> of a float series: its numbers, in order.\<close>

definition dropna_f :: "float list \<Rightarrow> real list" where
  "dropna_f xs = List.map_filter id xs"

text \<open>\<^verbatim>\<open>.pct_change()\<close>: NaN at the first position, then \<open>x[i] / x[i-1] - 1\<close>, on the
  series with its NaNs filled forward first (the default of pandas before 3.0; it makes
  no difference on a series without NaN).\<close>

fun ffill_from :: "float \<Rightarrow> float list \<Rightarrow> float list" where
  "ffill_from prev [] = []"
| "ffill_from prev (None # xs) = prev # ffill_from prev xs"
| "ffill_from prev (Some x # xs) = Some x # ffill_from (Some x) xs"

fun pct_from :: "float \<Rightarrow> float list \<Rightarrow> float list" where
  "pct_from prev [] = []"
| "pct_from prev (x # xs) = fsub (fdiv x prev) (Some 1) # pct_from x xs"

definition pct_change :: "float list \<Rightarrow> float list" where
  "pct_change xs = (case ffill_from None xs of [] \<Rightarrow> [] | x # rest \<Rightarrow> None # pct_from x rest)"

definition mean_r :: "real list \<Rightarrow> real" where
  "mean_r xs = sum_list xs / real (length xs)"

text \<open>\<^verbatim>\<open>.mean()\<close> and \<^verbatim>\<open>.std()\<close> (sample standard deviation, one degree of freedom
  less) skip NaN; fewer numbers than they need give NaN.\<close>

definition mean_f :: "real list \<Rightarrow> float" where
  "mean_f xs = (if xs = [] then None else Some (mean_r xs))"

definition std_f :: "real list \<Rightarrow> float" where
  "std_f xs =
     (if length xs < 2 then None
      else Some (sqrt (sum_list (map (\<lambda>x. (x - mean_r xs)\<^sup>2) xs) / real (length xs - 1))))"

text \<open>\<^verbatim>\<open>.expanding().max()\<close>: the largest number so far, NaN before the first number.\<close>

fun expanding_from :: "float \<Rightarrow> float list \<Rightarrow> float list" where
  "expanding_from m [] = []"
| "expanding_from m (x # xs) =
     (let m' = (case (m, x) of
                  (None, _) \<Rightarrow> x
                | (Some a, None) \<Rightarrow> Some a
                | (Some a, Some b) \<Rightarrow> Some (max a b))
      in m' # expanding_from m' xs)"

definition expanding_max :: "float list \<Rightarrow> float list" where
  "expanding_max xs = expanding_from None xs"

text \<open>\<^verbatim>\<open>.min()\<close> skips NaN; NaN when no number is left.\<close>

definition min_f :: "float list \<Rightarrow> float" where
  "min_f xs = (case dropna_f xs of [] \<Rightarrow> None | v # vs \<Rightarrow> Some (fold min vs v))"

text \<open>\<^verbatim>\<open>b ** y\<close> on a numpy float: NaN for a negative base unless the exponent is a whole
  number; a zero base with a negative exponent is an infinity in numpy, undefined here.\<close>

definition fpow :: "float \<Rightarrow> real \<Rightarrow> float" where
  "fpow a y =
     (case a of
        None \<Rightarrow> (if y = 0 then Some 1 else None)
      | Some x \<Rightarrow>
          if y = 0 then Some 1
          else if 0 < x then Some (x powr y)
          else if x = 0 then (if 0 < y then Some 0 else None)
          else if y = of_int \<lfloor>y\<rfloor>
               then (if 0 < y then Some (x ^ nat \<lfloor>y\<rfloor>) else Some (1 / x ^ nat \<lfloor>- y\<rfloor>))
               else None)"

text \<open>\<^verbatim>\<open>np.cov(a, b)[0][1]\<close>: a ValueError when the lengths differ, NaN with fewer than
  two observations.\<close>

definition np_cov :: "real list \<Rightarrow> real list \<Rightarrow> error + float" where
  "np_cov a b =
     (if length a \<noteq> length b then Inl ValueError
      else if length a < 2 then Inr None
      else Inr (Some (sum_list (map (\<lambda>(x, y). (x - mean_r a) * (y - mean_r b)) (zip a b))
                      / real (length a - 1))))"

text \<open>\<^verbatim>\<open>np.var(b)\<close>: the population variance, NaN of an empty array.\<close>

definition np_var :: "real list \<Rightarrow> float" where
  "np_var b =
     (if b = [] then None
      else Some (sum_list (map (\<lambda>y. (y - mean_r b)\<^sup>2) b) / real (length b)))"

text \<open>\<^verbatim>\<open>s.isin(values)\<close>\<close>

definition isin :: "column \<Rightarrow> column \<Rightarrow> bool list" where
  "isin s vals = map (\<lambda>c. c \<in> set vals) s"

subsection \<open>The metrics\<close>

definition risk_free_rate :: real where
  "risk_free_rate = 3 / 100"

type_synonym metrics = "(string \<times> float) list"

text \<open>The first part of the \<^verbatim>\<open>try\<close> block: the six metrics of the fund alone.\<close>

definition metrics_base :: "frame \<Rightarrow> error + metrics" where
  "metrics_base df =
     then_e (getitem df ''nav'') (\<lambda>nav_c.
     then_e (floats_of nav_c) (\<lambda>nav.
     then_e (getitem df ''cum_nav'') (\<lambda>cum_c.
     then_e (iloc cum_c (- 1)) (\<lambda>last_c.
     then_e (iloc cum_c 0) (\<lambda>first_c.
     then_e (as_float last_c) (\<lambda>last_v.
     then_e (as_float first_c) (\<lambda>first_v.
     then_e (floats_of cum_c) (\<lambda>cum.
       let returns = dropna_f (pct_change nav);
           cum_returns = fsub (fdiv last_v first_v) (Some 1);
           trading_days = nrows df;
           years = real trading_days / 252;
           annual_return = fsub (fpow (fadd (Some 1) cum_returns) (1 / years)) (Some 1);
           annual_volatility = fmul (std_f returns) (Some (sqrt 252));
           rolling_max = expanding_max cum;
           drawdown = map2 (\<lambda>c m. fdiv (fsub c m) m) cum rolling_max;
           max_drawdown = min_f drawdown;
           sharpe_ratio =
             (if fgt annual_volatility (Some 0)
              then fdiv (fsub annual_return (Some risk_free_rate)) annual_volatility
              else Some 0);
           calmar_ratio =
             (if fne max_drawdown (Some 0) then fdiv annual_return (fabs max_drawdown)
              else Some 0)
       in Inr [(''total_return'', cum_returns),
               (''annual_return'', annual_return),
               (''annual_volatility'', annual_volatility),
               (''max_drawdown'', max_drawdown),
               (''sharpe_ratio'', sharpe_ratio),
               (''calmar_ratio'', calmar_ratio)]))))))))"

text \<open>The part run when a benchmark frame with rows is given. The difference of the two
  return series is aligned on the index: both frames were re-indexed from 0, a row
  missing on either side gives NaN, and the statistics skip NaN, so the pairs at equal
  positions are what counts.\<close>

definition metrics_benchmark :: "frame \<Rightarrow> frame \<Rightarrow> metrics \<Rightarrow> error + metrics" where
  "metrics_benchmark df benchmark_df m =
     then_e (getitem benchmark_df ''close'') (\<lambda>close_c.
     then_e (floats_of close_c) (\<lambda>benchmark_close.
     then_e (getitem df ''date'') (\<lambda>date_c.
     then_e (getitem benchmark_df ''trade_date'') (\<lambda>trade_date_c.
       let common_dates = isin date_c trade_date_c;
           fund_aligned = keep_rows common_dates df
       in then_e (getitem fund_aligned ''date'') (\<lambda>aligned_dates.
       let benchmark_aligned = keep_rows (isin trade_date_c aligned_dates) benchmark_df
       in if 0 < nrows fund_aligned \<and> 0 < nrows benchmark_aligned
          then
            then_e (getitem fund_aligned ''nav'') (\<lambda>fnav_c.
            then_e (floats_of fnav_c) (\<lambda>fnav.
            then_e (getitem benchmark_aligned ''close'') (\<lambda>bclose_c.
            then_e (floats_of bclose_c) (\<lambda>bclose.
              let fund_returns = pct_change fnav;
                  bench_returns = pct_change bclose;
                  excess_returns = dropna_f (map2 fsub fund_returns bench_returns);
                  tracking_error = fmul (std_f excess_returns) (Some (sqrt 252));
                  information_ratio =
                    (if fgt tracking_error (Some 0)
                     then fdiv (fmul (mean_f excess_returns) (Some (sqrt 252))) tracking_error
                     else Some 0)
              in if nrows fund_aligned = nrows benchmark_aligned
                 then
                   then_e (np_cov (dropna_f fund_returns) (dropna_f bench_returns)) (\<lambda>covariance.
                     let benchmark_variance = np_var (dropna_f bench_returns);
                         beta = (if fgt benchmark_variance (Some 0)
                                 then fdiv covariance benchmark_variance else Some 1)
                     in Inr (AList.update ''tracking_error'' tracking_error
                              (AList.update ''information_ratio'' information_ratio
                                (AList.update ''beta'' beta m))))
                 else Inr m))))
          else Inr m)))))"

definition metrics_body :: "frame \<Rightarrow> frame option \<Rightarrow> error + metrics" where
  "metrics_body df benchmark_df =
     then_e (metrics_base df) (\<lambda>m.
       case benchmark_df of
         None \<Rightarrow> Inr m
       | Some b \<Rightarrow> if df_empty b then Inr m else metrics_benchmark df b m)"

definition calculate_performance_metrics ::
  "frame option \<Rightarrow> frame option \<Rightarrow> metrics option \<times> log_entry list" where
  "calculate_performance_metrics df benchmark_df =
     (case df of
        None \<Rightarrow> (None, [])
      | Some d \<Rightarrow>
          if df_empty d then (None, [])
          else (case metrics_body d benchmark_df of
                  Inr m \<Rightarrow> (Some m, [])
                | Inl e \<Rightarrow> (None, [MetricsFailed e])))"

section \<open>data_loader.py: preprocess_fund_data\<close>

text \<open>The two converters of pandas are parameters of the model, applied value by value:
  \<^verbatim>\<open>pd.to_datetime\<close> gives a timestamp, NaT (\<open>None\<close>) for a missing value, or raises
  on a value it cannot parse; \<^verbatim>\<open>pd.to_numeric(errors='coerce')\<close> gives a float, NaN for
  what is not a number.\<close>

record pandas =
  to_datetime :: "cell \<Rightarrow> error + int option"
  to_numeric :: "cell \<Rightarrow> float"

definition date_cell :: "int option \<Rightarrow> cell" where
  "date_cell d = (case d of None \<Rightarrow> NaT | Some k \<Rightarrow> Day k)"

fun day_key :: "cell \<Rightarrow> int" where
  "day_key (Day k) = k"
| "day_key _ = 0"

text \<open>The order \<^verbatim>\<open>sort_values\<close> puts the rows in: the positions of the timestamps in
  ascending order, then the positions of the missing values. pandas does not say in which
  order rows of equal date come (its default sort is not stable); the model keeps them in
  their original order.\<close>

definition argsort_dates :: "column \<Rightarrow> nat list" where
  "argsort_dates c =
     sort_key (\<lambda>i. day_key (c ! i)) (filter (\<lambda>i. \<not> isna (c ! i)) [0..<length c])
     @ filter (\<lambda>i. isna (c ! i)) [0..<length c]"

text \<open>\<^verbatim>\<open>df.sort_values('date').reset_index(drop=True)\<close>\<close>

definition sort_values_date :: "frame \<Rightarrow> error + frame" where
  "sort_values_date df = then_e (getitem df ''date'') (\<lambda>c. Inr (take_rows (argsort_dates c) df))"

text \<open>\<^verbatim>\<open>df.dropna(subset=names)\<close>: the rows with no missing value in the named columns.\<close>

definition dropna_rows :: "frame \<Rightarrow> string list \<Rightarrow> error + frame" where
  "dropna_rows df names =
     then_e (map_e (getitem df) names) (\<lambda>cols.
       Inr (keep_rows (map (\<lambda>i. list_all (\<lambda>c. \<not> isna (c ! i)) cols) [0..<nrows df]) df))"

text \<open>The first of \<^verbatim>\<open>['unit_nav', 'adj_nav', 'close']\<close> that is a column.\<close>

definition nav_column :: "frame \<Rightarrow> string option" where
  "nav_column df = find (has_col df) [''unit_nav'', ''adj_nav'', ''close'']"

definition date_source :: "frame \<Rightarrow> string option" where
  "date_source df =
     (if has_col df ''ann_date'' then Some ''ann_date''
      else if has_col df ''trade_date'' then Some ''trade_date''
      else None)"

text \<open>The \<^verbatim>\<open>try\<close> block once the date column is found; \<open>Inr None\<close> is the return
  taken when there is no price column.\<close>

definition preprocess_body :: "pandas \<Rightarrow> frame \<Rightarrow> string \<Rightarrow> error + frame option" where
  "preprocess_body pd df_raw src =
     then_e (getitem df_raw src) (\<lambda>src_c.
     then_e (map_e (to_datetime pd) src_c) (\<lambda>ds.
     then_e (sort_values_date (setitem df_raw ''date'' (map date_cell ds))) (\<lambda>df.
       case nav_column df of
         None \<Rightarrow> Inr None
       | Some nc \<Rightarrow>
           then_e (getitem df nc) (\<lambda>raw_nav.
           then_e (dropna_rows (setitem df ''nav'' (map (\<lambda>c. of_float (to_numeric pd c)) raw_nav))
                     [''nav'', ''date'']) (\<lambda>df.
           then_e (getitem df ''nav'') (\<lambda>nav_c.
           then_e (iloc nav_c 0) (\<lambda>first_c.
           then_e (as_float first_c) (\<lambda>first_v.
           then_e (floats_of nav_c) (\<lambda>nav.
             Inr (Some (setitem df ''cum_nav'' (map (\<lambda>x. of_float (fdiv x first_v)) nav))))))))))))"

definition preprocess_fund_data :: "pandas \<Rightarrow> frame option \<Rightarrow> frame option \<times> log_entry list" where
  "preprocess_fund_data pd df_raw =
     (case df_raw of
        None \<Rightarrow> (None, [])
      | Some raw \<Rightarrow>
          if df_empty raw then (None, [])
          else (case date_source raw of
                  None \<Rightarrow> (None, [NoDateColumn])
                | Some src \<Rightarrow>
                    (case preprocess_body pd raw src of
                       Inl e \<Rightarrow> (None, [PreprocessFailed e])
                     | Inr None \<Rightarrow> (None, [NoNavColumn])
                     | Inr (Some df) \<Rightarrow> (Some df, []))))"

text \<open>A converter for the sample data, reading the vendor's dates as they come
  (\<^verbatim>\<open>'YYYYMMDD'\<close>, ordered as the number they spell): a string of digits is a date, any
  other string does not parse; floats are numbers already, a string is not.\<close>

definition digit_val :: "char \<Rightarrow> nat option" where
  "digit_val ch =
     (if ch = CHR ''0'' then Some 0 else if ch = CHR ''1'' then Some 1
      else if ch = CHR ''2'' then Some 2 else if ch = CHR ''3'' then Some 3
      else if ch = CHR ''4'' then Some 4 else if ch = CHR ''5'' then Some 5
      else if ch = CHR ''6'' then Some 6 else if ch = CHR ''7'' then Some 7
      else if ch = CHR ''8'' then Some 8 else if ch = CHR ''9'' then Some 9
      else None)"

fun digits_val :: "nat \<Rightarrow> string \<Rightarrow> nat option" where
  "digits_val acc [] = Some acc"
| "digits_val acc (ch # cs) =
     (case digit_val ch of None \<Rightarrow> None | Some d \<Rightarrow> digits_val (10 * acc + d) cs)"

fun vendor_datetime :: "cell \<Rightarrow> error + int option" where
  "vendor_datetime (Str s) =
     (if s = [] then Inl ValueError
      else case digits_val 0 s of None \<Rightarrow> Inl ValueError | Some k \<Rightarrow> Inr (Some (int k)))"
| "vendor_datetime (Day k) = Inr (Some k)"
| "vendor_datetime (Num r) = Inr (Some \<lfloor>r\<rfloor>)"
| "vendor_datetime _ = Inr None"

fun vendor_numeric :: "cell \<Rightarrow> float" where
  "vendor_numeric (Num r) = Some r"
| "vendor_numeric (Day k) = Some (of_int k)"
| "vendor_numeric _ = None"

definition vendor_pandas :: pandas where
  "vendor_pandas = \<lparr>to_datetime = vendor_datetime, to_numeric = vendor_numeric\<rparr>"

section \<open>indicators.py: calculate_technical_indicators\<close>

text \<open>The indicator library pandas_ta is a parameter of the model. Each of its functions
  gives a frame, a series or \<^verbatim>\<open>None\<close> (what it returns for a series shorter than the
  window), or raises.\<close>

datatype ta_result = TaFrame frame | TaSeries column | TaNone

record pandas_ta =
  ta_sma :: "column \<Rightarrow> int \<Rightarrow> error + ta_result"
  ta_rsi :: "column \<Rightarrow> int \<Rightarrow> error + ta_result"
  ta_bbands :: "column \<Rightarrow> int \<Rightarrow> real \<Rightarrow> error + ta_result"
  ta_macd :: "column \<Rightarrow> error + ta_result"
  ta_stoch :: "column \<Rightarrow> column \<Rightarrow> column \<Rightarrow> int \<Rightarrow> int \<Rightarrow> int \<Rightarrow> error + ta_result"
  ta_cci :: "column \<Rightarrow> column \<Rightarrow> column \<Rightarrow> int \<Rightarrow> error + ta_result"
  ta_adx :: "column \<Rightarrow> column \<Rightarrow> column \<Rightarrow> int \<Rightarrow> error + ta_result"
  ta_trix :: "column \<Rightarrow> int \<Rightarrow> error + ta_result"
  ta_atr :: "column \<Rightarrow> column \<Rightarrow> column \<Rightarrow> int \<Rightarrow> error + ta_result"
  ta_obv :: "column \<Rightarrow> column \<Rightarrow> error + ta_result"
  ta_mfi :: "column \<Rightarrow> column \<Rightarrow> column \<Rightarrow> column \<Rightarrow> int \<Rightarrow> error + ta_result"

text \<open>\<^verbatim>\<open>r[key]\<close> on a result: \<^verbatim>\<open>None\<close> is not subscriptable, a series has no such
  label.\<close>

definition ta_getitem :: "ta_result \<Rightarrow> string \<Rightarrow> error + column" where
  "ta_getitem r key =
     (case r of TaFrame f \<Rightarrow> getitem f key | TaSeries c \<Rightarrow> Inl KeyError | TaNone \<Rightarrow> Inl TypeError)"

text \<open>\<^verbatim>\<open>df[name] = r\<close>: a series is aligned, \<^verbatim>\<open>None\<close> fills the column with
  \<^verbatim>\<open>None\<close>, a frame must have exactly one column.\<close>

definition setitem_ta :: "frame \<Rightarrow> string \<Rightarrow> ta_result \<Rightarrow> error + frame" where
  "setitem_ta df name r =
     (case r of
        TaSeries c \<Rightarrow> Inr (setitem df name c)
      | TaNone \<Rightarrow> Inr (AList.update name (replicate (nrows df) PyNone) df)
      | TaFrame f \<Rightarrow> (case f of [(_, c)] \<Rightarrow> Inr (setitem df name c) | _ \<Rightarrow> Inl ValueError))"

text \<open>Arithmetic on whole series: a TypeError on a series that does not hold floats, the
  result aligned position by position.\<close>

definition series_floats :: "ta_result \<Rightarrow> error + float list" where
  "series_floats r = (case r of TaSeries c \<Rightarrow> floats_of c | _ \<Rightarrow> Inl TypeError)"

definition align_f :: "nat \<Rightarrow> float list \<Rightarrow> float list" where
  "align_f n xs = take n xs @ replicate (n - length xs) None"

definition series_op :: "(float \<Rightarrow> float \<Rightarrow> float) \<Rightarrow> float list \<Rightarrow> float list \<Rightarrow> float list" where
  "series_op f a b =
     (let n = max (length a) (length b) in map2 f (align_f n a) (align_f n b))"

text \<open>\<^verbatim>\<open>if selected_indicators: if name in selected_indicators: ...\<close>\<close>

definition is_selected :: "string list option \<Rightarrow> string \<Rightarrow> bool" where
  "is_selected sel name = (case sel of None \<Rightarrow> False | Some xs \<Rightarrow> xs \<noteq> [] \<and> name \<in> set xs)"

definition when_selected ::
  "string list option \<Rightarrow> string \<Rightarrow> (frame \<Rightarrow> error + frame) \<Rightarrow> frame \<Rightarrow> error + frame" where
  "when_selected sel name step df = (if is_selected sel name then step df else Inr df)"

subsection \<open>The blocks of the function, one per indicator\<close>

definition ind_sma :: "pandas_ta \<Rightarrow> int \<Rightarrow> frame \<Rightarrow> error + frame" where
  "ind_sma ta n df =
     then_e (getitem df ''nav'') (\<lambda>nav.
     then_e (ta_sma ta nav n) (\<lambda>r. setitem_ta df (ma_col n) r))"

definition ind_rsi :: "pandas_ta \<Rightarrow> int \<Rightarrow> frame \<Rightarrow> error + frame" where
  "ind_rsi ta n df =
     then_e (getitem df ''nav'') (\<lambda>nav.
     then_e (ta_rsi ta nav n) (\<lambda>r. setitem_ta df (rsi_col_name n) r))"

definition ind_boll :: "pandas_ta \<Rightarrow> frame \<Rightarrow> error + frame" where
  "ind_boll ta df =
     then_e (getitem df ''nav'') (\<lambda>nav.
     then_e (ta_bbands ta nav 20 2) (\<lambda>boll.
     then_e (ta_getitem boll ''BBU_20_2.0_2.0'') (\<lambda>u.
     then_e (ta_getitem boll ''BBM_20_2.0_2.0'') (\<lambda>m.
     then_e (ta_getitem boll ''BBL_20_2.0_2.0'') (\<lambda>l.
       Inr (setitem (setitem (setitem df ''BOLL_UPPER'' u) ''BOLL_MIDDLE'' m) ''BOLL_LOWER'' l))))))"

definition ind_macd :: "pandas_ta \<Rightarrow> frame \<Rightarrow> error + frame" where
  "ind_macd ta df =
     then_e (getitem df ''nav'') (\<lambda>nav.
     then_e (ta_macd ta nav) (\<lambda>macd.
     then_e (ta_getitem macd ''MACD_12_26_9'') (\<lambda>dif.
     then_e (ta_getitem macd ''MACDs_12_26_9'') (\<lambda>dea.
     then_e (ta_getitem macd ''MACDh_12_26_9'') (\<lambda>hist.
       Inr (setitem (setitem (setitem df ''MACD_DIF'' dif) ''MACD_DEA'' dea) ''MACD_HIST'' hist))))))"

definition ind_kdj :: "pandas_ta \<Rightarrow> frame \<Rightarrow> error + frame" where
  "ind_kdj ta df =
     then_e (getitem df ''nav'') (\<lambda>nav.
     then_e (ta_stoch ta nav nav nav 9 3 3) (\<lambda>kdj.
     then_e (ta_getitem kdj ''STOCHk_9_3_3'') (\<lambda>k.
     then_e (ta_getitem kdj ''STOCHd_9_3_3'') (\<lambda>d.
       let df = setitem (setitem df ''KDJ_K'' k) ''KDJ_D'' d
       in then_e (getitem df ''KDJ_K'') (\<lambda>kc.
          then_e (floats_of kc) (\<lambda>kf.
          then_e (getitem df ''KDJ_D'') (\<lambda>dc.
          then_e (floats_of dc) (\<lambda>dfl.
            Inr (setitem df ''KDJ_J''
                  (map of_float (series_op fsub (map (fmul (Some 3)) kf)
                                                (map (fmul (Some 2)) dfl))))))))))))"

definition ind_cci :: "pandas_ta \<Rightarrow> frame \<Rightarrow> error + frame" where
  "ind_cci ta df =
     then_e (getitem df ''nav'') (\<lambda>nav.
     then_e (ta_cci ta nav nav nav 20) (\<lambda>cci. setitem_ta df ''CCI'' cci))"

definition ind_dmi :: "pandas_ta \<Rightarrow> frame \<Rightarrow> error + frame" where
  "ind_dmi ta df =
     then_e (getitem df ''nav'') (\<lambda>nav.
     then_e (ta_adx ta nav nav nav 14) (\<lambda>dmi.
     then_e (ta_getitem dmi ''DMP_14'') (\<lambda>p.
     then_e (ta_getitem dmi ''DMN_14'') (\<lambda>m.
     then_e (ta_getitem dmi ''ADX_14'') (\<lambda>a.
       Inr (setitem (setitem (setitem df ''DMI_PLUS'' p) ''DMI_MINUS'' m) ''DMI_ADX'' a))))))"

definition ind_bbi :: "pandas_ta \<Rightarrow> frame \<Rightarrow> error + frame" where
  "ind_bbi ta df =
     then_e (getitem df ''nav'') (\<lambda>nav.
     then_e (ta_sma ta nav 3) (\<lambda>ma3.
     then_e (ta_sma ta nav 6) (\<lambda>ma6.
     then_e (ta_sma ta nav 12) (\<lambda>ma12.
     then_e (ta_sma ta nav 24) (\<lambda>ma24.
     then_e (series_floats ma3) (\<lambda>a3.
     then_e (series_floats ma6) (\<lambda>a6.
     then_e (series_floats ma12) (\<lambda>a12.
     then_e (series_floats ma24) (\<lambda>a24.
       Inr (setitem df ''BBI''
             (map (\<lambda>x. of_float (fdiv x (Some 4)))
                (series_op fadd (series_op fadd (series_op fadd a3 a6) a12) a24))))))))))))"

definition ind_trix :: "pandas_ta \<Rightarrow> frame \<Rightarrow> error + frame" where
  "ind_trix ta df =
     then_e (getitem df ''nav'') (\<lambda>nav.
     then_e (ta_trix ta nav 12) (\<lambda>trix.
       case trix of
         TaFrame f \<Rightarrow>
           then_e (getitem f ''TRIX_12_9'') (\<lambda>t.
           then_e (getitem f ''TRIXs_12_9'') (\<lambda>sg.
             Inr (setitem (setitem df ''TRIX'' t) ''TRIX_SIGNAL'' sg)))
       | _ \<Rightarrow> setitem_ta df ''TRIX'' trix))"

definition ind_atr :: "pandas_ta \<Rightarrow> frame \<Rightarrow> error + frame" where
  "ind_atr ta df =
     then_e (getitem df ''nav'') (\<lambda>nav.
     then_e (ta_atr ta nav nav nav 14) (\<lambda>atr. setitem_ta df ''ATR'' atr))"

text \<open>Without a volume column, a constant volume of 1000000 stands in.\<close>

definition volume_data :: "frame \<Rightarrow> error + column" where
  "volume_data df =
     (if \<not> has_col df ''volume'' then Inr (replicate (nrows df) (Num 1000000))
      else getitem df ''volume'')"

definition ind_obv :: "pandas_ta \<Rightarrow> frame \<Rightarrow> error + frame" where
  "ind_obv ta df =
     then_e (volume_data df) (\<lambda>vol.
     then_e (getitem df ''nav'') (\<lambda>nav.
     then_e (ta_obv ta nav vol) (\<lambda>obv. setitem_ta df ''OBV'' obv)))"

definition ind_mfi :: "pandas_ta \<Rightarrow> frame \<Rightarrow> error + frame" where
  "ind_mfi ta df =
     then_e (volume_data df) (\<lambda>vol.
     then_e (getitem df ''nav'') (\<lambda>nav.
     then_e (ta_mfi ta nav nav nav vol 14) (\<lambda>mfi. setitem_ta df ''MFI'' mfi)))"

text \<open>The \<^verbatim>\<open>try\<close> block: the blocks in the order of the source, on the copy of the
  frame; the first exception leaves it.\<close>

fun run_steps :: "(frame \<Rightarrow> error + frame) list \<Rightarrow> frame \<Rightarrow> error + frame" where
  "run_steps [] df = Inr df"
| "run_steps (step # steps) df =
     (case step df of Inl e \<Rightarrow> Inl e | Inr df' \<Rightarrow> run_steps steps df')"

definition indicator_steps ::
  "pandas_ta \<Rightarrow> int \<Rightarrow> int \<Rightarrow> int \<Rightarrow> string list option \<Rightarrow> (frame \<Rightarrow> error + frame) list" where
  "indicator_steps ta short_ma long_ma rsi_period sel =
     [ind_sma ta short_ma,
      ind_sma ta long_ma,
      ind_rsi ta rsi_period,
      when_selected sel ''BOLL'' (ind_boll ta),
      when_selected sel ''MACD'' (ind_macd ta),
      when_selected sel ''KDJ'' (ind_kdj ta),
      when_selected sel ''CCI'' (ind_cci ta),
      when_selected sel ''DMI'' (ind_dmi ta),
      when_selected sel ''BBI'' (ind_bbi ta),
      when_selected sel ''TRIX'' (ind_trix ta),
      when_selected sel ''ATR'' (ind_atr ta),
      when_selected sel ''OBV'' (ind_obv ta),
      when_selected sel ''MFI'' (ind_mfi ta)]"

text \<open>On an exception the function reports it and returns the frame it was given.\<close>

definition calculate_technical_indicators ::
  "pandas_ta \<Rightarrow> frame option \<Rightarrow> int \<Rightarrow> int \<Rightarrow> int \<Rightarrow> string list option
     \<Rightarrow> frame option \<times> log_entry list" where
  "calculate_technical_indicators ta df short_ma long_ma rsi_period sel =
     (case df of
        None \<Rightarrow> (None, [])
      | Some d \<Rightarrow>
          if df_empty d then (None, [])
          else (case run_steps (indicator_steps ta short_ma long_ma rsi_period sel) d of
                  Inr df_indicators \<Rightarrow> (Some df_indicators, [])
                | Inl e \<Rightarrow> (Some d, [IndicatorsFailed e])))"

section \<open>visualization.py: generate_technical_analysis_summary\<close>

text \<open>The labels the function writes into \<^verbatim>\<open>'signal'\<close>, in the order they appear in the
  source: neutral, bullish, bearish, overbought, oversold, above the upper band, below the
  lower band, strong zone, weak zone, rising trend, falling trend, ranging.\<close>

datatype signal =
    Neutral | Bullish | Bearish | Overbought | Oversold
  | AboveUpper | BelowLower | StrongZone | WeakZone
  | UpTrend | DownTrend | Ranging

text \<open>\<^verbatim>\<open>'overall_signal'\<close> (neutral, leaning long, leaning short) and
  \<^verbatim>\<open>'risk_level'\<close>.\<close>

datatype overall = OverallNeutral | OverallLong | OverallShort

datatype risk = RiskHigh | RiskMedium | RiskLow

text \<open>An entry of \<^verbatim>\<open>'indicator_analysis'\<close>: the label, and the numbers its
  \<^verbatim>\<open>'interpretation'\<close> text prints. \<^verbatim>\<open>'suggestion'\<close> is one of three fixed texts, named
  here by the overall signal it goes with; \<open>None\<close> is the empty text.\<close>

type_synonym entry = "signal \<times> float list"

record summary =
  overall_signal :: overall
  key_signals :: "string list"
  risk_level :: risk
  suggestion :: "overall option"
  indicator_analysis :: "(string \<times> entry) list"

text \<open>The two counters and the dictionary the indicator blocks update.\<close>

record tally =
  signals_bullish :: nat
  signals_bearish :: nat
  analysis :: "(string \<times> entry) list"

text \<open>What a branch does: add to the counters (as the branch says) and, at the end of the
  block, store the entry under the indicator's key.\<close>

definition record_signal :: "string \<Rightarrow> signal \<Rightarrow> float list \<Rightarrow> nat \<Rightarrow> nat \<Rightarrow> tally \<Rightarrow> tally" where
  "record_signal key sg shown bull bear t =
     \<lparr>signals_bullish = signals_bullish t + bull,
      signals_bearish = signals_bearish t + bear,
      analysis = AList.update key (sg, shown) (analysis t)\<rparr>"

text \<open>\<^verbatim>\<open>latest_data[name]\<close>, with \<^verbatim>\<open>latest_data = df.iloc[-1]\<close>.\<close>

definition latest :: "frame \<Rightarrow> string \<Rightarrow> error + cell" where
  "latest df name = then_e (getitem df name) (\<lambda>c. iloc c (- 1))"

definition latest_float :: "frame \<Rightarrow> string \<Rightarrow> error + float" where
  "latest_float df name = then_e (latest df name) as_float"

definition starts_with :: "string \<Rightarrow> string \<Rightarrow> bool" where
  "starts_with s p = (take (length p) s = p)"

text \<open>The blocks, one per indicator. A block whose text prints its values formats each of
  them as a float at its end, so a value that is not a float raises in that block wherever
  its comparisons stop: such a block reads its values as floats at once.\<close>

definition sec_macd :: "frame \<Rightarrow> tally \<Rightarrow> error + tally" where
  "sec_macd df t =
     (if has_col df ''MACD_DIF'' \<and> has_col df ''MACD_DEA'' then
        then_e (latest_float df ''MACD_DIF'') (\<lambda>dif.
        then_e (latest_float df ''MACD_DEA'') (\<lambda>dea.
          let hist = fsub dif dea in
          if fgt dif dea \<and> fgt hist (Some 0) then Inr (record_signal ''MACD'' Bullish [dif, dea] 1 0 t)
          else if flt dif dea \<and> flt hist (Some 0) then Inr (record_signal ''MACD'' Bearish [dif, dea] 0 1 t)
          else Inr (record_signal ''MACD'' Neutral [dif, dea] 0 0 t)))
      else Inr t)"

definition sec_rsi :: "frame \<Rightarrow> tally \<Rightarrow> error + tally" where
  "sec_rsi df t =
     (case filter (\<lambda>col. starts_with col ''RSI'') (df_columns df) of
        [] \<Rightarrow> Inr t
      | col # _ \<Rightarrow>
          then_e (latest_float df col) (\<lambda>rsi.
            if fgt rsi (Some 70) then Inr (record_signal ''RSI'' Overbought [rsi] 0 1 t)
            else if flt rsi (Some 30) then Inr (record_signal ''RSI'' Oversold [rsi] 1 0 t)
            else Inr (record_signal ''RSI'' Neutral [rsi] 0 0 t)))"

definition sec_kdj :: "frame \<Rightarrow> tally \<Rightarrow> error + tally" where
  "sec_kdj df t =
     (if list_all (has_col df) [''KDJ_K'', ''KDJ_D'', ''KDJ_J''] then
        then_e (latest_float df ''KDJ_K'') (\<lambda>k.
        then_e (latest_float df ''KDJ_D'') (\<lambda>d.
        then_e (latest_float df ''KDJ_J'') (\<lambda>j.
          if fgt k (Some 80) \<and> fgt d (Some 80) then Inr (record_signal ''KDJ'' Overbought [k, d, j] 0 1 t)
          else if flt k (Some 20) \<and> flt d (Some 20) then Inr (record_signal ''KDJ'' Oversold [k, d, j] 1 0 t)
          else if fgt k d \<and> fgt j (Some 0) then Inr (record_signal ''KDJ'' Bullish [k, d, j] 1 0 t)
          else if flt k d \<and> flt j (Some 0) then Inr (record_signal ''KDJ'' Bearish [k, d, j] 0 1 t)
          else Inr (record_signal ''KDJ'' Neutral [k, d, j] 0 0 t))))
      else Inr t)"

text \<open>The Bollinger block prints no number, so a band is only read as a float where a
  comparison reaches it.\<close>

definition sec_boll :: "frame \<Rightarrow> tally \<Rightarrow> error + tally" where
  "sec_boll df t =
     (if list_all (has_col df) [''BOLL_UPPER'', ''BOLL_MIDDLE'', ''BOLL_LOWER''] then
        then_e (latest df ''nav'') (\<lambda>nav.
        then_e (latest df ''BOLL_UPPER'') (\<lambda>upper.
        then_e (latest df ''BOLL_LOWER'') (\<lambda>lower.
        then_e (latest df ''BOLL_MIDDLE'') (\<lambda>middle.
        then_e (cell_cmp fgt nav upper) (\<lambda>above.
          if above then Inr (record_signal ''BOLL'' AboveUpper [] 0 1 t)
          else then_e (cell_cmp flt nav lower) (\<lambda>below.
            if below then Inr (record_signal ''BOLL'' BelowLower [] 1 0 t)
            else then_e (cell_cmp fgt nav middle) (\<lambda>strong.
              if strong then Inr (record_signal ''BOLL'' StrongZone [] 1 0 t)
              else Inr (record_signal ''BOLL'' WeakZone [] 0 1 t))))))))
      else Inr t)"

definition sec_cci :: "frame \<Rightarrow> tally \<Rightarrow> error + tally" where
  "sec_cci df t =
     (if has_col df ''CCI'' then
        then_e (latest_float df ''CCI'') (\<lambda>cci.
          if fgt cci (Some 100) then Inr (record_signal ''CCI'' Overbought [cci] 0 1 t)
          else if flt cci (Some (- 100)) then Inr (record_signal ''CCI'' Oversold [cci] 1 0 t)
          else Inr (record_signal ''CCI'' Neutral [cci] 0 0 t))
      else Inr t)"

text \<open>The directional block prints the ADX only; the two directional values are compared
  only when the ADX is above 25.\<close>

definition sec_dmi :: "frame \<Rightarrow> tally \<Rightarrow> error + tally" where
  "sec_dmi df t =
     (if list_all (has_col df) [''DMI_PLUS'', ''DMI_MINUS'', ''DMI_ADX''] then
        then_e (latest df ''DMI_PLUS'') (\<lambda>di_plus.
        then_e (latest df ''DMI_MINUS'') (\<lambda>di_minus.
        then_e (latest_float df ''DMI_ADX'') (\<lambda>adx.
          if fgt adx (Some 25) then
            then_e (cell_cmp fgt di_plus di_minus) (\<lambda>up.
              if up then Inr (record_signal ''DMI'' UpTrend [adx] 1 0 t)
              else Inr (record_signal ''DMI'' DownTrend [adx] 0 1 t))
          else Inr (record_signal ''DMI'' Ranging [adx] 0 0 t))))
      else Inr t)"

definition sec_mfi :: "frame \<Rightarrow> tally \<Rightarrow> error + tally" where
  "sec_mfi df t =
     (if has_col df ''MFI'' then
        then_e (latest_float df ''MFI'') (\<lambda>mfi.
          if fgt mfi (Some 80) then Inr (record_signal ''MFI'' Overbought [mfi] 0 1 t)
          else if flt mfi (Some 20) then Inr (record_signal ''MFI'' Oversold [mfi] 1 0 t)
          else Inr (record_signal ''MFI'' Neutral [mfi] 0 0 t))
      else Inr t)"

definition sec_bbi :: "frame \<Rightarrow> tally \<Rightarrow> error + tally" where
  "sec_bbi df t =
     (if has_col df ''BBI'' then
        then_e (latest df ''BBI'') (\<lambda>bbi.
        then_e (latest df ''nav'') (\<lambda>nav.
        then_e (cell_cmp fgt nav bbi) (\<lambda>above.
          if above then Inr (record_signal ''BBI'' Bullish [] 1 0 t)
          else Inr (record_signal ''BBI'' Bearish [] 0 1 t))))
      else Inr t)"

definition sec_trix :: "frame \<Rightarrow> tally \<Rightarrow> error + tally" where
  "sec_trix df t =
     (if has_col df ''TRIX'' then
        then_e (latest_float df ''TRIX'') (\<lambda>trix.
          if fgt trix (Some 0) then Inr (record_signal ''TRIX'' Bullish [trix] 1 0 t)
          else Inr (record_signal ''TRIX'' Bearish [trix] 0 1 t))
      else Inr t)"

text \<open>The indicator blocks in the order of the source, from both counters at 0 and an
  empty dictionary.\<close>

fun run_sections :: "(tally \<Rightarrow> error + tally) list \<Rightarrow> tally \<Rightarrow> error + tally" where
  "run_sections [] t = Inr t"
| "run_sections (sec # secs) t =
     (case sec t of Inl e \<Rightarrow> Inl e | Inr t' \<Rightarrow> run_sections secs t')"

definition sections :: "frame \<Rightarrow> (tally \<Rightarrow> error + tally) list" where
  "sections df =
     [sec_macd df, sec_rsi df, sec_kdj df, sec_boll df, sec_cci df,
      sec_dmi df, sec_mfi df, sec_bbi df, sec_trix df]"

definition tally_signals :: "frame \<Rightarrow> error + tally" where
  "tally_signals df =
     run_sections (sections df) \<lparr>signals_bullish = 0, signals_bearish = 0, analysis = []\<rparr>"

text \<open>The overall signal, from the two counters.\<close>

definition overall_of :: "nat \<Rightarrow> nat \<Rightarrow> overall" where
  "overall_of bull bear =
     (if bull > bear then OverallLong else if bear > bull then OverallShort else OverallNeutral)"

text \<open>The risk level: one vote when the column \<^verbatim>\<open>'RSI14'\<close> exists and its latest value is
  more than 30 away from 50, one when the column \<^verbatim>\<open>'ATR'\<close> exists and its latest value is
  a number above 0 and above 0.02.\<close>

definition rsi_vote :: "frame \<Rightarrow> error + nat" where
  "rsi_vote df =
     (if has_col df ''RSI14'' then
        then_e (latest_float df ''RSI14'') (\<lambda>rsi.
          Inr (if fgt (fabs (fsub rsi (Some 50))) (Some 30) then 1 else 0))
      else Inr 0)"

definition atr_vote :: "frame \<Rightarrow> error + nat" where
  "atr_vote df =
     (if has_col df ''ATR'' then
        then_e (latest df ''ATR'') (\<lambda>atr.
          if isna atr then Inr 0
          else then_e (as_float atr) (\<lambda>a.
            Inr (if fgt a (Some 0) \<and> fgt a (Some (2 / 100)) then 1 else 0)))
      else Inr 0)"

definition risk_of :: "nat \<Rightarrow> risk" where
  "risk_of volatility_signals =
     (if volatility_signals \<ge> 2 then RiskHigh
      else if volatility_signals = 1 then RiskMedium
      else RiskLow)"

definition summary_body :: "frame \<Rightarrow> error + summary" where
  "summary_body df =
     then_e (tally_signals df) (\<lambda>t.
     then_e (rsi_vote df) (\<lambda>v1.
     then_e (atr_vote df) (\<lambda>v2.
       let ov = overall_of (signals_bullish t) (signals_bearish t)
       in Inr \<lparr>overall_signal = ov,
               key_signals = [],
               risk_level = risk_of (v1 + v2),
               suggestion = Some ov,
               indicator_analysis = analysis t\<rparr>)))"

definition generate_technical_analysis_summary ::
  "frame option \<Rightarrow> string list \<Rightarrow> summary option \<times> log_entry list" where
  "generate_technical_analysis_summary df selected_indicators =
     (case df of
        None \<Rightarrow> (None, [])
      | Some d \<Rightarrow>
          if df_empty d then (None, [])
          else (case summary_body d of
                  Inr s \<Rightarrow> (Some s, [])
                | Inl e \<Rightarrow> (None, [SummaryFailed e])))"

section \<open>Well-formed frames, sample data and auxiliary notions\<close>

text \<open>Every column of a data frame has the length of the index.\<close>

definition wf_frame :: "frame \<Rightarrow> bool" where
  "wf_frame df = list_all (\<lambda>(name, c). length c = nrows df) df"

text \<open>The input is \<^verbatim>\<open>None\<close> or has zero rows.\<close>

definition no_rows :: "frame option \<Rightarrow> bool" where
  "no_rows df = (case df of None \<Rightarrow> True | Some d \<Rightarrow> nrows d = 0)"



text \<open>A stand-in for pandas_ta that hands the price series back under the column names
  of the library, and one whose MACD raises.\<close>

definition echo_ta :: pandas_ta where
  "echo_ta =
     \<lparr>ta_sma = (\<lambda>c n. Inr (TaSeries c)),
      ta_rsi = (\<lambda>c n. Inr (TaSeries c)),
      ta_bbands = (\<lambda>c n k. Inr (TaFrame [(''BBL_20_2.0_2.0'', c), (''BBM_20_2.0_2.0'', c),
                                           (''BBU_20_2.0_2.0'', c)])),
      ta_macd = (\<lambda>c. Inr (TaFrame [(''MACD_12_26_9'', c), (''MACDh_12_26_9'', c),
                                     (''MACDs_12_26_9'', c)])),
      ta_stoch = (\<lambda>h l c k d sm. Inr (TaFrame [(''STOCHk_9_3_3'', c), (''STOCHd_9_3_3'', c)])),
      ta_cci = (\<lambda>h l c n. Inr (TaSeries c)),
      ta_adx = (\<lambda>h l c n. Inr (TaFrame [(''ADX_14'', c), (''DMP_14'', c), (''DMN_14'', c)])),
      ta_trix = (\<lambda>c n. Inr (TaFrame [(''TRIX_12_9'', c), (''TRIXs_12_9'', c)])),
      ta_atr = (\<lambda>h l c n. Inr (TaSeries c)),
      ta_obv = (\<lambda>c v. Inr (TaSeries c)),
      ta_mfi = (\<lambda>h l c v n. Inr (TaSeries c))\<rparr>"

definition macd_raises_ta :: pandas_ta where
  "macd_raises_ta = echo_ta\<lparr>ta_macd := (\<lambda>c. Inl LibraryError)\<rparr>"

text \<open>A library whose MACD raises nothing and returns \<^verbatim>\<open>None\<close>, as pandas_ta does on
  a series too short for the indicator.\<close>

definition macd_none_ta :: pandas_ta where
  "macd_none_ta = echo_ta\<lparr>ta_macd := (\<lambda>c. Inr TaNone)\<rparr>"



text \<open>The vote a label stands for, as \<^verbatim>\<open>display_technical_analysis_summary\<close> colours
  the labels (green, red, yellow) and, for the four labels of the Bollinger block, as the
  comments of the source read them (above the upper band: a pull-back may follow; below
  the lower band: a rebound may follow): the neutral labels (neutral, ranging) none;
  bullish, oversold, below the lower band, strong zone and rising trend a bullish one;
  bearish, overbought, above the upper band, weak zone and falling trend a bearish one.\<close>

datatype vote = VoteBullish | VoteBearish | NoVote

fun vote_of :: "signal \<Rightarrow> vote" where
  "vote_of Neutral = NoVote"
| "vote_of Ranging = NoVote"
| "vote_of Bullish = VoteBullish"
| "vote_of Oversold = VoteBullish"
| "vote_of BelowLower = VoteBullish"
| "vote_of StrongZone = VoteBullish"
| "vote_of UpTrend = VoteBullish"
| "vote_of Bearish = VoteBearish"
| "vote_of Overbought = VoteBearish"
| "vote_of AboveUpper = VoteBearish"
| "vote_of WeakZone = VoteBearish"
| "vote_of DownTrend = VoteBearish"

text \<open>How many entries of the dictionary carry a label of the given vote.\<close>

definition count_votes :: "vote \<Rightarrow> (string \<times> entry) list \<Rightarrow> nat" where
  "count_votes v al = length (filter (\<lambda>e. vote_of (fst (snd e)) = v) al)"

text \<open>The invariant of the indicator blocks: the counters count the labels stored so
  far, and the keys stored so far are among \<open>K\<close>.\<close>

definition tally_ok :: "string set \<Rightarrow> tally \<Rightarrow> bool" where
  "tally_ok K t =
     (signals_bullish t = count_votes VoteBullish (analysis t)
      \<and> signals_bearish t = count_votes VoteBearish (analysis t)
      \<and> fst ` set (analysis t) \<subseteq> K)"

text \<open>A table with four indicators: overbought RSI, oversold CCI, a weak trend, positive
  TRIX.\<close>

definition mixed_signals_frame :: frame where
  "mixed_signals_frame =
     [(''date'', [Day 1, Day 2]),
      (''nav'', [Num 1, Num 2]),
      (''RSI14'', [Num 50, Num 75]),
      (''CCI'', [Num 0, Num (- 150)]),
      (''TRIX'', [Num 0, Num 1]),
      (''DMI_PLUS'', [Num 0, Num 1]),
      (''DMI_MINUS'', [Num 0, Num 2]),
      (''DMI_ADX'', [Num 0, Num 10])]"

text \<open>The table after \<^verbatim>\<open>calculate_technical_indicators\<close> with an RSI window of 7 (the
  lowest position of the sidebar's slider), and the same values under a window of 14:
  the latest RSI is 95, the latest ATR 0.05.\<close>

definition rsi7_frame :: frame where
  "rsi7_frame =
     [(''date'', [Day 1, Day 2]),
      (''nav'', [Num 1, Num 2]),
      (''RSI7'', [Num 50, Num 95]),
      (''ATR'', [Num (1 / 100), Num (5 / 100)])]"

definition rsi14_frame :: frame where
  "rsi14_frame =
     [(''date'', [Day 1, Day 2]),
      (''nav'', [Num 1, Num 2]),
      (''RSI14'', [Num 50, Num 95]),
      (''ATR'', [Num (1 / 100), Num (5 / 100)])]"

text \<open>Data and words for the performance metrics.\<close>

text \<open>A fund with two rows.\<close>

definition two_row_frame :: frame where
  "two_row_frame =
     [(''date'', [Day 1, Day 2]),
      (''nav'', [Num 1, Num 2]),
      (''cum_nav'', [Num 1, Num 2])]"

text \<open>The Sharpe ratio in the words of claim C5: 0 when the volatility is 0, the
  quotient otherwise.\<close>

definition claimed_sharpe :: "float \<Rightarrow> float \<Rightarrow> float" where
  "claimed_sharpe annual_return annual_volatility =
     (if annual_volatility = Some 0 then Some 0
      else fdiv (fsub annual_return (Some risk_free_rate)) annual_volatility)"

text \<open>The keys of the benchmark-relative metrics and of the metrics of the fund alone.\<close>

definition benchmark_keys :: "string list" where
  "benchmark_keys = [''beta'', ''information_ratio'', ''tracking_error'']"

text \<open>The running maximum and the drawdowns of a series of numbers: at every position the
  value against the largest value up to there, relative to it.\<close>

fun running_max :: "real \<Rightarrow> real list \<Rightarrow> real list" where
  "running_max a [] = []"
| "running_max a (c # cs) = max a c # running_max (max a c) cs"

definition drawdowns :: "real list \<Rightarrow> real list" where
  "drawdowns cs = map2 (\<lambda>c m. (c - m) / m) cs (running_max (hd cs) cs)"

definition base_keys :: "string list" where
  "base_keys = [''total_return'', ''annual_return'', ''annual_volatility'', ''max_drawdown'',
                ''sharpe_ratio'', ''calmar_ratio'']"

text \<open>The example of the specification: prices 1.00, 1.10, 1.05, 1.21, 1.00 on five
  days.\<close>

definition spec_example_frame :: frame where
  "spec_example_frame =
     [(''date'', [Day 1, Day 2, Day 3, Day 4, Day 5]),
      (''nav'', [Num 1, Num (11 / 10), Num (105 / 100), Num (121 / 100), Num 1]),
      (''cum_nav'', [Num 1, Num (11 / 10), Num (105 / 100), Num (121 / 100), Num 1])]"

text \<open>Four days with a fall and a partial recovery.\<close>

definition four_row_frame :: frame where
  "four_row_frame =
     [(''date'', [Day 1, Day 2, Day 3, Day 4]),
      (''nav'', [Num 4, Num 2, Num 2, Num 3]),
      (''cum_nav'', [Num 1, Num (1 / 2), Num (1 / 2), Num (3 / 4)])]"

text \<open>A benchmark as the vendor sends it: its dates are strings, none of them a
  timestamp of the fund.\<close>

definition other_dates_benchmark :: frame where
  "other_dates_benchmark =
     [(''trade_date'', [Str ''20240102'', Str ''20240103'']),
      (''close'', [Num 3000, Num 3030])]"

text \<open>Data for the normalisation.\<close>

text \<open>The order of the date column after sorting: among timestamps, ascending; the
  missing values are not compared.\<close>

definition date_order :: "cell \<Rightarrow> cell \<Rightarrow> bool" where
  "date_order a b = (\<not> isna a \<and> \<not> isna b \<longrightarrow> day_key a \<le> day_key b)"

text \<open>The raw rows that have a date and a price, each as the pair of the two, in the order
  of the raw frame: the date is read from the column \<^verbatim>\<open>preprocess_fund_data\<close> takes the
  dates from and the price from the column it takes the prices from, with the converters
  of pandas. A row whose date is missing or whose price is not a number is not among them.\<close>

definition valid_rows :: "pandas \<Rightarrow> frame \<Rightarrow> (int \<times> real) list" where
  "valid_rows pd raw =
     (case (date_source raw, nav_column raw) of
        (Some src, Some nc) \<Rightarrow>
          (case (getitem raw src, getitem raw nc) of
             (Inr src_c, Inr nav_c) \<Rightarrow>
               List.map_filter
                 (\<lambda>(c, v). case (to_datetime pd c, to_numeric pd v) of
                              (Inr (Some k), Some p) \<Rightarrow> Some (k, p)
                            | _ \<Rightarrow> None)
                 (zip src_c nav_c)
           | _ \<Rightarrow> [])
      | _ \<Rightarrow> [])"

text \<open>Vendor rows out of order, one of them without a price.\<close>

definition unsorted_raw :: frame where
  "unsorted_raw =
     [(''ann_date'', [Str ''20240103'', Str ''20240101'', Str ''20240102'']),
      (''unit_nav'', [Num (24 / 10), Num 2, NaN])]"

text \<open>Vendor rows out of order, two of them announced on the same date.\<close>

definition repeated_dates_raw :: frame where
  "repeated_dates_raw =
     [(''ann_date'', [Str ''20240103'', Str ''20240102'', Str ''20240102'']),
      (''unit_nav'', [Num (12 / 10), Num 1, Num (11 / 10)])]"

text \<open>Data and words for the indicator engine.\<close>

text \<open>The calls of pandas_ta the function makes for a price series \<open>nav\<close> and a volume
  series: the two moving averages and the RSI always, the others when their indicator is
  requested. \<open>indicator_raises\<close> says that one of these calls raises.\<close>

definition obv_raises :: "pandas_ta \<Rightarrow> column \<Rightarrow> error + column \<Rightarrow> bool" where
  "obv_raises ta nav vol = (case vol of Inl e \<Rightarrow> True | Inr v \<Rightarrow> isl (ta_obv ta nav v))"

definition mfi_raises :: "pandas_ta \<Rightarrow> column \<Rightarrow> error + column \<Rightarrow> bool" where
  "mfi_raises ta nav vol = (case vol of Inl e \<Rightarrow> True | Inr v \<Rightarrow> isl (ta_mfi ta nav nav nav v 14))"

definition indicator_raises ::
  "pandas_ta \<Rightarrow> column \<Rightarrow> error + column \<Rightarrow> int \<Rightarrow> int \<Rightarrow> int \<Rightarrow> string list option \<Rightarrow> bool" where
  "indicator_raises ta nav vol short_ma long_ma rsi_period sel =
     (isl (ta_sma ta nav short_ma)
      \<or> isl (ta_sma ta nav long_ma)
      \<or> isl (ta_rsi ta nav rsi_period)
      \<or> is_selected sel ''BOLL'' \<and> isl (ta_bbands ta nav 20 2)
      \<or> is_selected sel ''MACD'' \<and> isl (ta_macd ta nav)
      \<or> is_selected sel ''KDJ'' \<and> isl (ta_stoch ta nav nav nav 9 3 3)
      \<or> is_selected sel ''CCI'' \<and> isl (ta_cci ta nav nav nav 20)
      \<or> is_selected sel ''DMI'' \<and> isl (ta_adx ta nav nav nav 14)
      \<or> is_selected sel ''BBI'' \<and> (isl (ta_sma ta nav 3) \<or> isl (ta_sma ta nav 6)
                                      \<or> isl (ta_sma ta nav 12) \<or> isl (ta_sma ta nav 24))
      \<or> is_selected sel ''TRIX'' \<and> isl (ta_trix ta nav 12)
      \<or> is_selected sel ''ATR'' \<and> isl (ta_atr ta nav nav nav 14)
      \<or> is_selected sel ''OBV'' \<and> obv_raises ta nav vol
      \<or> is_selected sel ''MFI'' \<and> mfi_raises ta nav vol)"

text \<open>What the blocks read from the frame they are handed: the price column and the
  volume series. No block changes them.\<close>

definition same_inputs :: "column \<Rightarrow> error + column \<Rightarrow> frame \<Rightarrow> bool" where
  "same_inputs nav vol d = (getitem d ''nav'' = Inr nav \<and> volume_data d = vol)"

text \<open>A fund with a single row.\<close>

definition one_row_frame :: frame where
  "one_row_frame = [(''date'', [Day 1]), (''nav'', [Num 1])]"

section \<open>Basic facts\<close>

lemma then_e_simps [simp]:
  "then_e (Inl e) f = Inl e"
  "then_e (Inr x) f = f x"
  by (simp_all add: then_e_def)

lemmas eval_frame = getitem_def has_col_def df_columns_def nrows_def df_empty_def wf_frame_def
  ma_col_def rsi_col_name_def str_int_def str_nat.simps digit_char_def iloc_def Let_def
  floats_of_def

lemma map_e_Inr:
  "map_e f xs = Inr ys \<Longrightarrow> length ys = length xs \<and> (\<forall>i < length xs. f (xs ! i) = Inr (ys ! i))"
proof (induction xs arbitrary: ys)
  case Nil
  then show ?case by simp
next
  case (Cons x xs)
  then obtain y ys' where y: "f x = Inr y" and ys': "map_e f xs = Inr ys'" and e: "ys = y # ys'"
    by (auto split: sum.splits)
  from Cons.IH [OF ys'] have "length ys' = length xs" and
    nth: "\<And>i. i < length xs \<Longrightarrow> f (xs ! i) = Inr (ys' ! i)" by auto
  then show ?case using y e by (auto simp: nth_Cons split: nat.splits)
qed

lemma floats_of_nth:
  "floats_of c = Inr s \<Longrightarrow> i < length c \<Longrightarrow> as_float (c ! i) = Inr (s ! i)"
  unfolding floats_of_def by (drule map_e_Inr) simp

lemma floats_of_length: "floats_of c = Inr s \<Longrightarrow> length s = length c"
  unfolding floats_of_def by (drule map_e_Inr) simp


lemma wf_getitem_length: "wf_frame df \<Longrightarrow> getitem df name = Inr c \<Longrightarrow> length c = nrows df"
  by (auto simp: wf_frame_def getitem_def list_all_iff split: option.splits dest!: map_of_SomeD)


section \<open>Missing input\<close>

text \<open>
  Claim C10. Every core operation tolerates a missing or empty input without raising:
  when the input frame is \<^verbatim>\<open>None\<close> or has zero rows, \<^verbatim>\<open>calculate_technical_indicators\<close>,
  \<^verbatim>\<open>calculate_performance_metrics\<close> and \<^verbatim>\<open>generate_technical_analysis_summary\<close> return
  \<^verbatim>\<open>None\<close> and report nothing, and the cross detection (both copies of it) returns a pair
  of empty lists.
\<close>

theorem missing_input_gives_null:
  assumes "no_rows df"
  shows "calculate_technical_indicators ta df short_ma long_ma rsi_period sel = (None, [])
       \<and> calculate_performance_metrics df benchmark_df = (None, [])
       \<and> generate_technical_analysis_summary df selected = (None, [])
       \<and> detect_golden_cross_death_cross df short_ma long_ma = (([], []), [])
       \<and> detect_cross_points df short_ma long_ma = ([], [])"
proof (cases df)
  case None
  then show ?thesis
    by (simp add: calculate_technical_indicators_def calculate_performance_metrics_def
        generate_technical_analysis_summary_def detect_golden_cross_death_cross_def
        detect_cross_points_def)
next
  case (Some d)
  with assms have n: "nrows d = 0" by (simp add: no_rows_def)
  then have e: "df_empty d" by (simp add: df_empty_def)
  have "cross_body d short_ma long_ma = Inr ([], [])"
    using n by (simp add: cross_body_def Let_def)
  with Some e show ?thesis
    by (simp add: calculate_technical_indicators_def calculate_performance_metrics_def
        generate_technical_analysis_summary_def detect_golden_cross_death_cross_def
        detect_cross_points_def)
qed

theorem missing_input_gives_null_witness:
  "no_rows None \<and> no_rows (Some [(''date'', []), (''nav'', [])])
   \<and> calculate_technical_indicators echo_ta None 20 60 14 None = (None, [])
   \<and> calculate_performance_metrics (Some [(''date'', []), (''nav'', [])]) None = (None, [])
   \<and> generate_technical_analysis_summary (Some [(''date'', []), (''nav'', [])]) [] = (None, [])
   \<and> detect_golden_cross_death_cross None 20 60 = (([], []), [])
   \<and> detect_cross_points (Some [(''date'', []), (''nav'', [])]) 20 60 = ([], [])"
  using missing_input_gives_null [of None echo_ta 20 60 14 None None "[]"]
    missing_input_gives_null [of "Some [(''date'', []), (''nav'', [])]" echo_ta 20 60 14 None None "[]"]
  by (simp add: no_rows_def nrows_def)

section \<open>Moving-average crossovers\<close>








section \<open>The vote of the signals\<close>

lemma update_fresh: "k \<notin> fst ` set al \<Longrightarrow> AList.update k v al = al @ [(k, v)]"
  by (induction al) auto

lemma record_signal_ok:
  assumes "tally_ok K t" "key \<notin> K"
    and "bull = (if vote_of sg = VoteBullish then 1 else 0)"
    and "bear = (if vote_of sg = VoteBearish then 1 else 0)"
  shows "tally_ok (insert key K) (record_signal key sg shown bull bear t)"
proof -
  have fresh: "key \<notin> fst ` set (analysis t)" using assms(1,2) by (auto simp: tally_ok_def)
  show ?thesis
    using assms by (auto simp: tally_ok_def record_signal_def update_fresh [OF fresh] count_votes_def)
qed

lemma tally_ok_insert: "tally_ok K t \<Longrightarrow> tally_ok (insert k K) t"
  by (auto simp: tally_ok_def)

lemma sec_macd_ok:
  "sec_macd df t = Inr t' \<Longrightarrow> tally_ok K t \<Longrightarrow> ''MACD'' \<notin> K \<Longrightarrow> tally_ok (insert ''MACD'' K) t'"
  by (auto simp: sec_macd_def then_e_def Let_def intro!: record_signal_ok intro: tally_ok_insert
      split: if_splits sum.splits)

lemma sec_rsi_ok:
  "sec_rsi df t = Inr t' \<Longrightarrow> tally_ok K t \<Longrightarrow> ''RSI'' \<notin> K \<Longrightarrow> tally_ok (insert ''RSI'' K) t'"
  by (auto simp: sec_rsi_def then_e_def Let_def intro!: record_signal_ok intro: tally_ok_insert
      split: if_splits sum.splits list.splits)

lemma sec_kdj_ok:
  "sec_kdj df t = Inr t' \<Longrightarrow> tally_ok K t \<Longrightarrow> ''KDJ'' \<notin> K \<Longrightarrow> tally_ok (insert ''KDJ'' K) t'"
  by (auto simp: sec_kdj_def then_e_def Let_def intro!: record_signal_ok intro: tally_ok_insert
      split: if_splits sum.splits)

lemma sec_boll_ok:
  "sec_boll df t = Inr t' \<Longrightarrow> tally_ok K t \<Longrightarrow> ''BOLL'' \<notin> K \<Longrightarrow> tally_ok (insert ''BOLL'' K) t'"
  by (auto simp: sec_boll_def then_e_def Let_def intro!: record_signal_ok intro: tally_ok_insert
      split: if_splits sum.splits)

lemma sec_cci_ok:
  "sec_cci df t = Inr t' \<Longrightarrow> tally_ok K t \<Longrightarrow> ''CCI'' \<notin> K \<Longrightarrow> tally_ok (insert ''CCI'' K) t'"
  by (auto simp: sec_cci_def then_e_def Let_def intro!: record_signal_ok intro: tally_ok_insert
      split: if_splits sum.splits)

lemma sec_dmi_ok:
  "sec_dmi df t = Inr t' \<Longrightarrow> tally_ok K t \<Longrightarrow> ''DMI'' \<notin> K \<Longrightarrow> tally_ok (insert ''DMI'' K) t'"
  by (auto simp: sec_dmi_def then_e_def Let_def intro!: record_signal_ok intro: tally_ok_insert
      split: if_splits sum.splits)

lemma sec_mfi_ok:
  "sec_mfi df t = Inr t' \<Longrightarrow> tally_ok K t \<Longrightarrow> ''MFI'' \<notin> K \<Longrightarrow> tally_ok (insert ''MFI'' K) t'"
  by (auto simp: sec_mfi_def then_e_def Let_def intro!: record_signal_ok intro: tally_ok_insert
      split: if_splits sum.splits)

lemma sec_bbi_ok:
  "sec_bbi df t = Inr t' \<Longrightarrow> tally_ok K t \<Longrightarrow> ''BBI'' \<notin> K \<Longrightarrow> tally_ok (insert ''BBI'' K) t'"
  by (auto simp: sec_bbi_def then_e_def Let_def intro!: record_signal_ok intro: tally_ok_insert
      split: if_splits sum.splits)

lemma sec_trix_ok:
  "sec_trix df t = Inr t' \<Longrightarrow> tally_ok K t \<Longrightarrow> ''TRIX'' \<notin> K \<Longrightarrow> tally_ok (insert ''TRIX'' K) t'"
  by (auto simp: sec_trix_def then_e_def Let_def intro!: record_signal_ok intro: tally_ok_insert
      split: if_splits sum.splits)

lemma tally_signals_ok:
  assumes "tally_signals df = Inr t"
  shows "signals_bullish t = count_votes VoteBullish (analysis t)
       \<and> signals_bearish t = count_votes VoteBearish (analysis t)"
proof -
  let ?t0 = "\<lparr>signals_bullish = 0, signals_bearish = 0, analysis = []\<rparr>"
  have t0: "tally_ok {} ?t0" by (simp add: tally_ok_def count_votes_def)
  from assms obtain t1 t2 t3 t4 t5 t6 t7 t8 where
    s: "sec_macd df ?t0 = Inr t1" "sec_rsi df t1 = Inr t2" "sec_kdj df t2 = Inr t3"
       "sec_boll df t3 = Inr t4" "sec_cci df t4 = Inr t5" "sec_dmi df t5 = Inr t6"
       "sec_mfi df t6 = Inr t7" "sec_bbi df t7 = Inr t8" "sec_trix df t8 = Inr t"
    by (auto simp: tally_signals_def sections_def split: sum.splits)
  have "tally_ok {''MACD''} t1" using sec_macd_ok [OF s(1) t0] by simp
  then have "tally_ok {''RSI'', ''MACD''} t2" using sec_rsi_ok [OF s(2)] by simp
  then have "tally_ok {''KDJ'', ''RSI'', ''MACD''} t3" using sec_kdj_ok [OF s(3)] by simp
  then have "tally_ok {''BOLL'', ''KDJ'', ''RSI'', ''MACD''} t4" using sec_boll_ok [OF s(4)] by simp
  then have "tally_ok {''CCI'', ''BOLL'', ''KDJ'', ''RSI'', ''MACD''} t5"
    using sec_cci_ok [OF s(5)] by simp
  then have "tally_ok {''DMI'', ''CCI'', ''BOLL'', ''KDJ'', ''RSI'', ''MACD''} t6"
    using sec_dmi_ok [OF s(6)] by simp
  then have "tally_ok {''MFI'', ''DMI'', ''CCI'', ''BOLL'', ''KDJ'', ''RSI'', ''MACD''} t7"
    using sec_mfi_ok [OF s(7)] by simp
  then have "tally_ok {''BBI'', ''MFI'', ''DMI'', ''CCI'', ''BOLL'', ''KDJ'', ''RSI'', ''MACD''} t8"
    using sec_bbi_ok [OF s(8)] by simp
  then have "tally_ok {''TRIX'', ''BBI'', ''MFI'', ''DMI'', ''CCI'', ''BOLL'', ''KDJ'', ''RSI'', ''MACD''} t"
    using sec_trix_ok [OF s(9)] by simp
  then show ?thesis by (simp add: tally_ok_def)
qed

text \<open>
  Claim C8. Whenever \<^verbatim>\<open>generate_technical_analysis_summary\<close> returns a summary, its two
  counters are the numbers of stored labels that stand for a bullish and for a bearish
  vote: every non-neutral label added exactly one vote to exactly one counter, a neutral
  label none. The overall signal is long (bullish) exactly when the bullish count is the
  greater, short (bearish) exactly when the bearish count is the greater, and neutral
  when the counts are equal.
\<close>

theorem overall_by_votes:
  assumes "generate_technical_analysis_summary (Some df) selected = (Some s, lg)"
  shows "(\<exists>t. tally_signals df = Inr t
            \<and> indicator_analysis s = analysis t
            \<and> signals_bullish t = count_votes VoteBullish (indicator_analysis s)
            \<and> signals_bearish t = count_votes VoteBearish (indicator_analysis s))
       \<and> overall_signal s =
           (if count_votes VoteBullish (indicator_analysis s)
                 > count_votes VoteBearish (indicator_analysis s) then OverallLong
            else if count_votes VoteBearish (indicator_analysis s)
                 > count_votes VoteBullish (indicator_analysis s) then OverallShort
            else OverallNeutral)"
proof -
  from assms obtain t v1 v2 where t: "tally_signals df = Inr t"
    and s: "s = \<lparr>overall_signal = overall_of (signals_bullish t) (signals_bearish t),
                key_signals = [], risk_level = risk_of (v1 + v2),
                suggestion = Some (overall_of (signals_bullish t) (signals_bearish t)),
                indicator_analysis = analysis t\<rparr>"
    by (auto simp: generate_technical_analysis_summary_def summary_body_def then_e_def Let_def
        split: if_splits sum.splits)
  from tally_signals_ok [OF t] show ?thesis
    using t s by (simp add: overall_of_def)
qed

lemmas eval_summary = generate_technical_analysis_summary_def summary_body_def tally_signals_def
  sections_def sec_macd_def sec_rsi_def sec_kdj_def sec_boll_def sec_cci_def sec_dmi_def
  sec_mfi_def sec_bbi_def sec_trix_def latest_def latest_float_def starts_with_def
  record_signal_def rsi_vote_def atr_vote_def risk_of_def overall_of_def cell_cmp_def
  fgt_def flt_def fsub_def fabs_def

theorem overall_by_votes_witness:
  "generate_technical_analysis_summary (Some mixed_signals_frame) [] =
     (Some \<lparr>overall_signal = OverallLong, key_signals = [], risk_level = RiskLow,
            suggestion = Some OverallLong,
            indicator_analysis =
              [(''RSI'', (Overbought, [Some 75])), (''CCI'', (Oversold, [Some (- 150)])),
               (''DMI'', (Ranging, [Some 10])), (''TRIX'', (Bullish, [Some 1]))]\<rparr>, [])
   \<and> count_votes VoteBullish
         [(''RSI'', (Overbought, [Some 75])), (''CCI'', (Oversold, [Some (- 150)])),
          (''DMI'', (Ranging, [Some 10])), (''TRIX'', (Bullish, [Some 1]))] = 2
   \<and> count_votes VoteBearish
         [(''RSI'', (Overbought, [Some 75])), (''CCI'', (Oversold, [Some (- 150)])),
          (''DMI'', (Ranging, [Some 10])), (''TRIX'', (Bullish, [Some 1]))] = 1"
proof -
  have e: "generate_technical_analysis_summary (Some mixed_signals_frame) [] =
     (Some \<lparr>overall_signal = OverallLong, key_signals = [], risk_level = RiskLow,
            suggestion = Some OverallLong,
            indicator_analysis =
              [(''RSI'', (Overbought, [Some 75])), (''CCI'', (Oversold, [Some (- 150)])),
               (''DMI'', (Ranging, [Some 10])), (''TRIX'', (Bullish, [Some 1]))]\<rparr>, [])"
    by (simp add: eval_summary mixed_signals_frame_def eval_frame)
  show ?thesis
    using overall_by_votes [OF e] e by (simp add: count_votes_def)
qed

section \<open>The risk level\<close>

text \<open>
  Claim C9 says that, for every configured RSI window, the risk level counts one flag
  when the latest RSI is more than 30 away from 50 and one when the latest ATR is above
  0.02: high with both, medium with one. The code reads the RSI from the column
  \<^verbatim>\<open>'RSI14'\<close> only. With the window 7 the column is \<^verbatim>\<open>'RSI7'\<close>: at a latest RSI of 95
  and a latest ATR of 0.05 the risk level is medium, where the same values under the
  window 14 give high.
\<close>

theorem risk_level_ignores_rsi7:
  "generate_technical_analysis_summary (Some rsi7_frame) [] =
     (Some \<lparr>overall_signal = OverallShort, key_signals = [], risk_level = RiskMedium,
            suggestion = Some OverallShort,
            indicator_analysis = [(''RSI'', (Overbought, [Some 95]))]\<rparr>, [])
   \<and> generate_technical_analysis_summary (Some rsi14_frame) [] =
     (Some \<lparr>overall_signal = OverallShort, key_signals = [], risk_level = RiskHigh,
            suggestion = Some OverallShort,
            indicator_analysis = [(''RSI'', (Overbought, [Some 95]))]\<rparr>, [])"
  by (simp add: eval_summary rsi7_frame_def rsi14_frame_def eval_frame)

section \<open>Performance metrics\<close>

lemmas eval_metrics = calculate_performance_metrics_def metrics_body_def metrics_base_def
  pct_change_def dropna_f_def std_f_def mean_f_def mean_r_def
  expanding_max_def min_f_def fpow_def fadd_def fsub_def fmul_def fdiv_def fabs_def
  fgt_def flt_def fne_def risk_free_rate_def

lemma then_e_InrE:
  assumes "then_e m f = Inr y"
  obtains x where "m = Inr x" "f x = Inr y"
  using assms by (cases m) (auto simp: then_e_def)

lemma metrics_base_shape:
  assumes "metrics_base df = Inr m"
  shows "\<exists>tr ar vol mdd.
           m = [(''total_return'', tr), (''annual_return'', ar), (''annual_volatility'', vol),
                (''max_drawdown'', mdd),
                (''sharpe_ratio'', if fgt vol (Some 0)
                                   then fdiv (fsub ar (Some risk_free_rate)) vol else Some 0),
                (''calmar_ratio'', if fne mdd (Some 0) then fdiv ar (fabs mdd) else Some 0)]"
  using assms unfolding metrics_base_def Let_def
  by (elim then_e_InrE) (simp only: sum.inject, blast)

lemma metrics_benchmark_keeps:
  assumes "metrics_benchmark df b m = Inr m'" and "k \<notin> set benchmark_keys"
  shows "map_of m' k = map_of m k"
  using assms
  by (auto simp: metrics_benchmark_def then_e_def Let_def benchmark_keys_def update_conv'
      split: sum.splits if_splits)

lemma metrics_body_keeps:
  assumes "metrics_body df b = Inr m'"
  shows "\<exists>m. metrics_base df = Inr m \<and> (\<forall>k. k \<notin> set benchmark_keys \<longrightarrow> map_of m' k = map_of m k)"
  using assms metrics_benchmark_keeps
  by (auto simp: metrics_body_def then_e_def split: sum.splits option.splits if_splits)

lemma fne_Some0: "fne a (Some 0) \<longleftrightarrow> a \<noteq> Some 0"
  by (cases a) (auto simp: fne_def)

text \<open>
  Claim C5, as the code has it. Whenever \<^verbatim>\<open>calculate_performance_metrics\<close> returns
  metrics, \<^verbatim>\<open>sharpe_ratio\<close> is (annual_return - 0.03) / annual_volatility when the
  volatility is greater than 0 and the sentinel 0 in every other case: a volatility of 0,
  and also an undefined one (NaN, which is what a fund of fewer than three rows has).
  \<^verbatim>\<open>calmar_ratio\<close> is the sentinel 0 when \<^verbatim>\<open>max_drawdown\<close> is 0 and
  annual_return / |max_drawdown| otherwise. No zero denominator raises.
\<close>

theorem ratio_sentinels:
  assumes "calculate_performance_metrics df benchmark_df = (Some m, lg)"
  shows "\<exists>ar vol mdd.
           map_of m ''annual_return'' = Some ar
         \<and> map_of m ''annual_volatility'' = Some vol
         \<and> map_of m ''max_drawdown'' = Some mdd
         \<and> map_of m ''sharpe_ratio'' =
             Some (if fgt vol (Some 0) then fdiv (fsub ar (Some risk_free_rate)) vol else Some 0)
         \<and> map_of m ''calmar_ratio'' =
             Some (if mdd = Some 0 then Some 0 else fdiv ar (fabs mdd))"
proof -
  from assms obtain d where d: "df = Some d" and body: "metrics_body d benchmark_df = Inr m"
    by (auto simp: calculate_performance_metrics_def split: option.splits if_splits sum.splits)
  from metrics_body_keeps [OF body] obtain m0 where m0: "metrics_base d = Inr m0"
    and keep: "\<And>k. k \<notin> set benchmark_keys \<Longrightarrow> map_of m k = map_of m0 k" by blast
  from metrics_base_shape [OF m0] obtain tr ar vol mdd where
    sh: "m0 = [(''total_return'', tr), (''annual_return'', ar), (''annual_volatility'', vol),
                (''max_drawdown'', mdd),
                (''sharpe_ratio'', if fgt vol (Some 0)
                                   then fdiv (fsub ar (Some risk_free_rate)) vol else Some 0),
                (''calmar_ratio'', if fne mdd (Some 0) then fdiv ar (fabs mdd) else Some 0)]"
    by blast
  have "map_of m ''annual_return'' = Some ar" "map_of m ''annual_volatility'' = Some vol"
    "map_of m ''max_drawdown'' = Some mdd"
    "map_of m ''sharpe_ratio'' =
       Some (if fgt vol (Some 0) then fdiv (fsub ar (Some risk_free_rate)) vol else Some 0)"
    "map_of m ''calmar_ratio'' = Some (if mdd = Some 0 then Some 0 else fdiv ar (fabs mdd))"
    by (simp_all add: keep benchmark_keys_def sh fne_Some0)
  then show ?thesis by blast
qed

text \<open>On a fund of two rows the volatility is NaN, not 0, and the Sharpe ratio is 0 where
  the quotient of the claim is NaN.\<close>

theorem two_rows_sharpe_not_as_claimed:
  "calculate_performance_metrics (Some two_row_frame) None =
     (Some [(''total_return'', Some 1),
            (''annual_return'', Some (2 ^ 126 - 1)),
            (''annual_volatility'', None),
            (''max_drawdown'', Some 0),
            (''sharpe_ratio'', Some 0),
            (''calmar_ratio'', Some 0)], [])
   \<and> claimed_sharpe (Some (2 ^ 126 - 1)) None \<noteq> Some 0"
  by (simp add: eval_metrics two_row_frame_def eval_frame claimed_sharpe_def)

lemma floats_of_Num: "floats_of (map Num cs) = Inr (map Some cs)"
  by (induction cs) (auto simp: floats_of_def)

lemma dropna_f_Some [simp]: "dropna_f (map Some ds) = ds"
  by (induction ds) (auto simp: dropna_f_def)

lemma expanding_from_Some:
  "expanding_from (Some a) (map Some cs) = map Some (running_max a cs)"
  by (induction cs arbitrary: a) (auto simp: Let_def)

lemma expanding_max_Some:
  "cs \<noteq> [] \<Longrightarrow> expanding_max (map Some cs) = map Some (running_max (hd cs) cs)"
  by (cases cs) (auto simp: expanding_max_def Let_def expanding_from_Some)

lemma running_max_length [simp]: "length (running_max a cs) = length cs"
  by (induction cs arbitrary: a) auto

lemma running_max_ge: "m \<in> set (running_max a cs) \<Longrightarrow> a \<le> m"
proof (induction cs arbitrary: a)
  case Nil
  then show ?case by simp
next
  case (Cons c cs)
  then show ?case by (auto dest!: Cons.IH)
qed

lemma running_max_sorted: "running_max a cs = cs \<longleftrightarrow> sorted (a # cs)"
proof (induction cs arbitrary: a)
  case Nil
  then show ?case by simp
next
  case (Cons c cs)
  have "running_max a (c # cs) = c # cs \<longleftrightarrow> a \<le> c \<and> running_max c cs = cs"
    by (auto simp: max_def)
  also have "\<dots> \<longleftrightarrow> a \<le> c \<and> sorted (c # cs)" using Cons.IH by simp
  also have "\<dots> \<longleftrightarrow> sorted (a # c # cs)" by auto
  finally show ?case .
qed

lemma drawdown_Some:
  assumes "0 < a"
  shows "map2 (\<lambda>c m. fdiv (fsub c m) m) (map Some cs) (map Some (running_max a cs))
       = map Some (map2 (\<lambda>c m. (c - m) / m) cs (running_max a cs))"
  using assms
proof (induction cs arbitrary: a)
  case Nil
  then show ?case by simp
next
  case (Cons c cs)
  have "0 < max a c" using Cons.prems by simp
  from Cons.IH [OF this] show ?case using Cons.prems
    by (auto simp: fdiv_def fsub_def max_def)
qed

lemma drawdown_nonpos:
  assumes "0 < a"
  shows "\<forall>d \<in> set (map2 (\<lambda>c m. (c - m) / m) cs (running_max a cs)). d \<le> 0"
  using assms
proof (induction cs arbitrary: a)
  case Nil
  then show ?case by simp
next
  case (Cons c cs)
  have p: "0 < max a c" using Cons.prems by simp
  have "(c - max a c) / max a c \<le> 0" using p by (simp add: divide_le_0_iff)
  with Cons.IH [OF p] show ?case by simp
qed

lemma drawdown_zero:
  assumes "0 < a"
  shows "(\<forall>d \<in> set (map2 (\<lambda>c m. (c - m) / m) cs (running_max a cs)). d = 0)
           \<longleftrightarrow> running_max a cs = cs"
  using assms
proof (induction cs arbitrary: a)
  case Nil
  then show ?case by simp
next
  case (Cons c cs)
  have p: "0 < max a c" using Cons.prems by simp
  have "(c - max a c) / max a c = 0 \<longleftrightarrow> max a c = c" using p by auto
  with Cons.IH [OF p] show ?case by auto
qed

lemma min_f_Some: "ds \<noteq> [] \<Longrightarrow> min_f (map Some ds) = Some (Min (set ds))"
  unfolding min_f_def dropna_f_Some by (cases ds) (simp_all add: Min.set_eq_fold [symmetric])

lemma drawdowns_facts:
  assumes "cs \<noteq> []" "0 < hd cs"
  shows "Min (set (drawdowns cs)) \<le> 0"
    and "Min (set (drawdowns cs)) = 0 \<longleftrightarrow> sorted cs"
proof -
  obtain c rest where cs: "cs = c # rest" using assms(1) by (cases cs) auto
  have pos: "0 < c" using assms(2) cs by simp
  let ?D = "drawdowns cs"
  have ne: "?D \<noteq> []" "finite (set ?D)" using cs by (auto simp: drawdowns_def)
  have zero: "0 \<in> set ?D" using cs pos by (simp add: drawdowns_def)
  have nonpos: "\<forall>d \<in> set ?D. d \<le> 0"
    using drawdown_nonpos [OF pos, of cs] cs by (simp add: drawdowns_def)
  show "Min (set ?D) \<le> 0" using zero ne by (simp add: Min_le)
  have "Min (set ?D) = 0 \<longleftrightarrow> (\<forall>d \<in> set ?D. d = 0)"
  proof
    assume m: "Min (set ?D) = 0"
    show "\<forall>d \<in> set ?D. d = 0"
    proof
      fix d assume d: "d \<in> set ?D"
      then have "Min (set ?D) \<le> d" using ne by (simp add: Min_le)
      with m nonpos d show "d = 0" by force
    qed
  next
    assume "\<forall>d \<in> set ?D. d = 0"
    then have "set ?D = {0}" using zero by auto
    then show "Min (set ?D) = 0" by simp
  qed
  also have "\<dots> \<longleftrightarrow> running_max c cs = cs"
    using drawdown_zero [OF pos, of cs] cs by (simp add: drawdowns_def)
  also have "\<dots> \<longleftrightarrow> sorted cs"
    using running_max_sorted [of c cs] cs by auto
  finally show "Min (set ?D) = 0 \<longleftrightarrow> sorted cs" .
qed

lemma iloc_first_last:
  assumes "c \<noteq> []"
  shows "iloc c 0 = Inr (c ! 0)" and "iloc c (- 1) = Inr (c ! (length c - 1))"
  using assms by (auto simp: iloc_def Let_def nat_diff_distrib' )

lemma metrics_base_floats:
  assumes nav: "getitem df ''nav'' = Inr nav_c" "floats_of nav_c = Inr nav"
    and cum: "getitem df ''cum_nav'' = Inr cum_c" "floats_of cum_c = Inr cum" and ne: "cum_c \<noteq> []"
  shows "\<exists>m. metrics_base df = Inr m
           \<and> map fst m = base_keys
           \<and> map_of m ''max_drawdown''
               = Some (min_f (map2 (\<lambda>c m. fdiv (fsub c m) m) cum (expanding_max cum)))"
proof -
  have a: "as_float (cum_c ! 0) = Inr (cum ! 0)"
    "as_float (cum_c ! (length cum_c - Suc 0)) = Inr (cum ! (length cum_c - Suc 0))"
    using floats_of_nth [OF cum(2)] ne by auto
  show ?thesis
    unfolding metrics_base_def Let_def
    by (simp add: nav cum iloc_first_last [OF ne] a base_keys_def)
qed

lemma metrics_body_max_drawdown:
  assumes "metrics_body df b = Inr m'"
    and nav: "getitem df ''nav'' = Inr nav_c" "floats_of nav_c = Inr nav"
    and cum: "getitem df ''cum_nav'' = Inr cum_c" "floats_of cum_c = Inr cum" and ne: "cum_c \<noteq> []"
  shows "map_of m' ''max_drawdown''
           = Some (min_f (map2 (\<lambda>c m. fdiv (fsub c m) m) cum (expanding_max cum)))"
proof -
  from metrics_body_keeps [OF assms(1)] obtain m where m: "metrics_base df = Inr m"
    and keep: "\<And>k. k \<notin> set benchmark_keys \<Longrightarrow> map_of m' k = map_of m k" by blast
  from metrics_base_floats [OF nav cum ne] m
  have "map_of m ''max_drawdown''
           = Some (min_f (map2 (\<lambda>c m. fdiv (fsub c m) m) cum (expanding_max cum)))" by auto
  then show ?thesis using keep [of "''max_drawdown''"] by (simp add: benchmark_keys_def)
qed

lemma max_drawdown_value:
  assumes "cs \<noteq> []" "0 < hd cs"
  shows "min_f (map2 (\<lambda>c m. fdiv (fsub c m) m) (map Some cs) (expanding_max (map Some cs)))
           = Some (Min (set (drawdowns cs)))"
proof -
  have ne: "drawdowns cs \<noteq> []" using assms(1) by (cases cs) (auto simp: drawdowns_def)
  have "map2 (\<lambda>c m. fdiv (fsub c m) m) (map Some cs) (expanding_max (map Some cs))
          = map Some (drawdowns cs)"
    unfolding expanding_max_Some [OF assms(1)] drawdown_Some [OF assms(2)] drawdowns_def ..
  then show ?thesis using min_f_Some [OF ne] by simp
qed

lemma max_drawdown_canonical:
  assumes body: "metrics_body df b = Inr m"
    and nav: "getitem df ''nav'' = Inr nav_c" "floats_of nav_c = Inr nav"
    and cum: "getitem df ''cum_nav'' = Inr (map Num cs)"
    and cs: "cs \<noteq> []" "0 < hd cs"
  shows "map_of m ''max_drawdown'' = Some (Some (Min (set (drawdowns cs))))"
proof -
  have n: "map Num cs \<noteq> []" using cs by simp
  show ?thesis
    using metrics_body_max_drawdown [OF body nav cum floats_of_Num n]
    by (simp add: max_drawdown_value [OF cs])
qed

text \<open>
  Claim C3. For a fund frame with rows whose price column holds floats and whose cumulative
  column holds numbers \<open>cs\<close> starting with a positive one (every canonical series:
  \<open>cs\<close> starts with 1), \<^verbatim>\<open>calculate_performance_metrics\<close> returns metrics, and whatever
  benchmark it is given, the \<^verbatim>\<open>max_drawdown\<close> it returns is a number less than or equal
  to 0 that is 0 if and only if \<open>cs\<close> is non-decreasing throughout.
\<close>

theorem max_drawdown_nonpositive:
  assumes ne: "\<not> df_empty df"
    and nav: "getitem df ''nav'' = Inr nav_c" "floats_of nav_c = Inr nav"
    and cum: "getitem df ''cum_nav'' = Inr (map Num cs)"
    and cs: "cs \<noteq> []" "0 < hd cs"
  shows "(\<exists>m. calculate_performance_metrics (Some df) None = (Some m, []))
       \<and> (\<forall>benchmark_df m lg.
             calculate_performance_metrics (Some df) benchmark_df = (Some m, lg) \<longrightarrow>
             (\<exists>d. map_of m ''max_drawdown'' = Some (Some d) \<and> d \<le> 0 \<and> (d = 0 \<longleftrightarrow> sorted cs)))"
proof (intro conjI allI impI)
  have n: "map Num cs \<noteq> []" using cs by simp
  from metrics_base_floats [OF nav cum floats_of_Num n]
  show "\<exists>m. calculate_performance_metrics (Some df) None = (Some m, [])"
    using ne by (auto simp: calculate_performance_metrics_def metrics_body_def)
next
  fix benchmark_df m lg
  assume "calculate_performance_metrics (Some df) benchmark_df = (Some m, lg)"
  then have body: "metrics_body df benchmark_df = Inr m"
    by (auto simp: calculate_performance_metrics_def split: if_splits sum.splits)
  have "map_of m ''max_drawdown'' = Some (Some (Min (set (drawdowns cs))))"
    by (rule max_drawdown_canonical [OF body nav cum cs])
  with drawdowns_facts [OF cs]
  show "\<exists>d. map_of m ''max_drawdown'' = Some (Some d) \<and> d \<le> 0 \<and> (d = 0 \<longleftrightarrow> sorted cs)"
    by blast
qed

theorem max_drawdown_nonpositive_witness:
  "\<not> df_empty spec_example_frame
   \<and> (\<exists>m. calculate_performance_metrics (Some spec_example_frame) None = (Some m, [])
          \<and> map_of m ''max_drawdown'' = Some (Some (- (21 / 121))))
   \<and> \<not> sorted [1, 11 / 10, 105 / 100, 121 / 100, 1 :: real]"
proof -
  let ?cs = "[1, 11 / 10, 105 / 100, 121 / 100, 1 :: real]"
  have ne: "\<not> df_empty spec_example_frame" by (simp add: spec_example_frame_def eval_frame)
  have nav: "getitem spec_example_frame ''nav'' = Inr (map Num ?cs)"
    and cum: "getitem spec_example_frame ''cum_nav'' = Inr (map Num ?cs)"
    by (simp_all add: spec_example_frame_def getitem_def)
  have cs: "?cs \<noteq> []" "0 < hd ?cs" by simp_all
  note t = max_drawdown_nonpositive [OF ne nav floats_of_Num cum cs]
  from t obtain m where m: "calculate_performance_metrics (Some spec_example_frame) None = (Some m, [])"
    by blast
  with t obtain d where d: "map_of m ''max_drawdown'' = Some (Some d)" "d = 0 \<longleftrightarrow> sorted ?cs"
    by blast
  from m ne have body: "metrics_body spec_example_frame None = Inr m"
    by (auto simp: calculate_performance_metrics_def split: sum.splits)
  have "map_of m ''max_drawdown'' = Some (Some (Min (set (drawdowns ?cs))))"
    by (rule max_drawdown_canonical [OF body nav floats_of_Num cum cs])
  moreover have "Min (set (drawdowns ?cs)) = - (21 / 121)" by (simp add: drawdowns_def)
  ultimately show ?thesis using ne m by simp
qed

lemma getitem_keep_rows:
  "getitem df name = Inr c \<Longrightarrow> getitem (keep_rows k df) name = Inr (map fst (filter snd (zip c k)))"
  by (auto simp: getitem_def keep_rows_def map_of_map split: option.splits)

lemma filter_none: "\<forall>b \<in> set k. \<not> b \<Longrightarrow> filter snd (zip c k) = []"
  by (auto simp: filter_empty_conv dest: set_zip_rightD)

lemma nrows_keep_none: "\<forall>b \<in> set k. \<not> b \<Longrightarrow> nrows (keep_rows k df) = 0"
  by (cases df) (auto simp: nrows_def keep_rows_def filter_none)

lemma isin_disjoint: "set s \<inter> set vals = {} \<Longrightarrow> \<forall>b \<in> set (isin s vals). \<not> b"
  by (auto simp: isin_def)

lemma metrics_benchmark_no_common_dates:
  assumes close: "getitem b ''close'' = Inr cc" "floats_of cc = Inr cf"
    and dates: "getitem df ''date'' = Inr dates"
    and tds: "getitem b ''trade_date'' = Inr tds"
    and disj: "set dates \<inter> set tds = {}"
  shows "metrics_benchmark df b m = Inr m"
  using nrows_keep_none [OF isin_disjoint [OF disj], of df]
  by (simp add: metrics_benchmark_def Let_def close dates tds
      getitem_keep_rows [OF dates])

text \<open>
  Claim C6. For a well-formed fund frame with rows and float price and cumulative columns,
  and a benchmark frame with a float \<^verbatim>\<open>close\<close> column whose \<^verbatim>\<open>trade_date\<close> column
  shares no value with the fund's \<^verbatim>\<open>date\<close> column, \<^verbatim>\<open>calculate_performance_metrics\<close>
  reports nothing and returns metrics whose keys are exactly total_return, annual_return,
  annual_volatility, max_drawdown, sharpe_ratio and calmar_ratio: beta,
  information_ratio and tracking_error are absent.
\<close>

theorem no_common_dates_omits_relative_metrics:
  assumes ne: "\<not> df_empty df" and wf: "wf_frame df"
    and nav: "getitem df ''nav'' = Inr nav_c" "floats_of nav_c = Inr nav"
    and cum: "getitem df ''cum_nav'' = Inr cum_c" "floats_of cum_c = Inr cum"
    and dates: "getitem df ''date'' = Inr dates"
    and close: "getitem b ''close'' = Inr cc" "floats_of cc = Inr cf"
    and tds: "getitem b ''trade_date'' = Inr tds"
    and disj: "set dates \<inter> set tds = {}"
  shows "\<exists>m. calculate_performance_metrics (Some df) (Some b) = (Some m, [])
           \<and> map fst m = base_keys
           \<and> map_of m ''beta'' = None
           \<and> map_of m ''information_ratio'' = None
           \<and> map_of m ''tracking_error'' = None"
proof -
  have "length cum_c = nrows df" using wf cum(1) by (rule wf_getitem_length)
  then have n: "cum_c \<noteq> []" using ne by (auto simp: df_empty_def)
  from metrics_base_floats [OF nav cum n] obtain m where
    m: "metrics_base df = Inr m" "map fst m = base_keys" by blast
  have "metrics_body df (Some b) = Inr m"
    using m(1) metrics_benchmark_no_common_dates [OF close dates tds disj]
    by (simp add: metrics_body_def)
  moreover have "map_of m k = None" if "k \<notin> set base_keys" for k
  proof -
    have "fst ` set m = set base_keys" using m(2) by (metis set_map)
    with that show ?thesis by (simp add: map_of_eq_None_iff)
  qed
  ultimately show ?thesis
    using ne m(2) by (simp add: calculate_performance_metrics_def base_keys_def)
qed

theorem no_common_dates_omits_relative_metrics_witness:
  "set [Day 1, Day 2] \<inter> set [Str ''20240102'', Str ''20240103''] = {}
   \<and> calculate_performance_metrics (Some two_row_frame) (Some other_dates_benchmark) =
       (Some [(''total_return'', Some 1),
              (''annual_return'', Some (2 ^ 126 - 1)),
              (''annual_volatility'', None),
              (''max_drawdown'', Some 0),
              (''sharpe_ratio'', Some 0),
              (''calmar_ratio'', Some 0)], [])"
proof -
  have e: "calculate_performance_metrics (Some two_row_frame) None =
       (Some [(''total_return'', Some 1),
              (''annual_return'', Some (2 ^ 126 - 1)),
              (''annual_volatility'', None),
              (''max_drawdown'', Some 0),
              (''sharpe_ratio'', Some 0),
              (''calmar_ratio'', Some 0)], [])"
    by (simp add: eval_metrics two_row_frame_def eval_frame)
  have ne: "\<not> df_empty two_row_frame" and wf: "wf_frame two_row_frame"
    by (simp_all add: two_row_frame_def eval_frame)
  have nav: "getitem two_row_frame ''nav'' = Inr (map Num [1, 2])"
    and cum: "getitem two_row_frame ''cum_nav'' = Inr (map Num [1, 2])"
    and dates: "getitem two_row_frame ''date'' = Inr [Day 1, Day 2]"
    by (simp_all add: two_row_frame_def getitem_def)
  have close: "getitem other_dates_benchmark ''close'' = Inr (map Num [3000, 3030])"
    and tds: "getitem other_dates_benchmark ''trade_date'' = Inr [Str ''20240102'', Str ''20240103'']"
    by (simp_all add: other_dates_benchmark_def getitem_def)
  have disj: "set [Day 1, Day 2] \<inter> set [Str ''20240102'', Str ''20240103''] = {}" by simp
  from no_common_dates_omits_relative_metrics
         [OF ne wf nav floats_of_Num cum floats_of_Num dates close floats_of_Num tds disj]
  obtain m where m: "calculate_performance_metrics (Some two_row_frame) (Some other_dates_benchmark)
      = (Some m, [])" by blast
  have "metrics_benchmark two_row_frame other_dates_benchmark m0 = Inr m0" for m0
    by (rule metrics_benchmark_no_common_dates [OF close floats_of_Num dates tds disj])
  then have "calculate_performance_metrics (Some two_row_frame) (Some other_dates_benchmark)
      = calculate_performance_metrics (Some two_row_frame) None"
    by (cases "metrics_base two_row_frame")
       (simp_all add: calculate_performance_metrics_def metrics_body_def
          other_dates_benchmark_def df_empty_def nrows_def)
  with e m disj show ?thesis by simp
qed

theorem ratio_sentinels_witness:
  "calculate_performance_metrics (Some four_row_frame) None =
     (Some [(''total_return'', Some (- (1 / 4))),
            (''annual_return'', Some ((3 / 4) ^ 63 - 1)),
            (''annual_volatility'', Some (sqrt 252 / 2)),
            (''max_drawdown'', Some (- (1 / 2))),
            (''sharpe_ratio'', Some (((3 / 4) ^ 63 * 2 - 103 / 50) / sqrt 252)),
            (''calmar_ratio'', Some ((3 / 4) ^ 63 * 2 - 2))], [])
   \<and> fgt (Some (sqrt 252 / 2)) (Some 0)"
proof -
  have e: "calculate_performance_metrics (Some four_row_frame) None =
     (Some [(''total_return'', Some (- (1 / 4))),
            (''annual_return'', Some ((3 / 4) ^ 63 - 1)),
            (''annual_volatility'', Some (sqrt 252 / 2)),
            (''max_drawdown'', Some (- (1 / 2))),
            (''sharpe_ratio'', Some (((3 / 4) ^ 63 * 2 - 103 / 50) / sqrt 252)),
            (''calmar_ratio'', Some ((3 / 4) ^ 63 * 2 - 2))], [])"
    by (simp add: eval_metrics four_row_frame_def eval_frame)
  show ?thesis using ratio_sentinels [OF e] e by (simp add: fgt_def flt_def)
qed

section \<open>Normalisation of the raw series\<close>

lemma preprocess_result:
  assumes "preprocess_fund_data pd (Some raw) = (Some df, lg)"
  obtains src src_c ds df2 nc raw_nav df4 nav_c first_c first_v nav where
    "getitem raw src = Inr src_c" "map_e (to_datetime pd) src_c = Inr ds"
    "sort_values_date (setitem raw ''date'' (map date_cell ds)) = Inr df2"
    "getitem df2 nc = Inr raw_nav"
    "dropna_rows (setitem df2 ''nav'' (map (\<lambda>c. of_float (to_numeric pd c)) raw_nav))
        [''nav'', ''date''] = Inr df4"
    "getitem df4 ''nav'' = Inr nav_c" "iloc nav_c 0 = Inr first_c"
    "as_float first_c = Inr first_v" "floats_of nav_c = Inr nav"
    "df = setitem df4 ''cum_nav'' (map (\<lambda>x. of_float (fdiv x first_v)) nav)"
    "lg = []" "\<not> df_empty raw"
proof -
  from assms obtain src where ne: "\<not> df_empty raw"
    and body: "preprocess_body pd raw src = Inr (Some df)" and lg: "lg = []"
    by (auto simp: preprocess_fund_data_def split: if_splits option.splits sum.splits)
  from body show ?thesis
    unfolding preprocess_body_def
    apply (elim then_e_InrE)
    apply (simp split: option.splits)
    apply (elim then_e_InrE)
    using that ne lg by auto
qed

lemma length_align [simp]: "length (align n c) = n"
  by (simp add: align_def)

lemma align_same: "length c = n \<Longrightarrow> align n c = c"
  by (simp add: align_def)

lemma set_align: "set (align n c) \<subseteq> insert NaN (set c)"
  by (auto simp: align_def dest: in_set_takeD)

lemma getitem_setitem:
  "getitem (setitem df name c) k = (if k = name then Inr (align (nrows df) c) else getitem df k)"
  by (simp add: getitem_def setitem_def update_conv')

lemma getitem_take_rows:
  "getitem df name = Inr c \<Longrightarrow> getitem (take_rows idx df) name = Inr (map (\<lambda>i. c ! i) idx)"
  by (auto simp: getitem_def take_rows_def map_of_map split: option.splits)

lemma getitem_keep_rows_iff:
  "getitem (keep_rows k df) name = Inr c'
     \<longleftrightarrow> (\<exists>c. getitem df name = Inr c \<and> c' = map fst (filter snd (zip c k)))"
  by (auto simp: getitem_def keep_rows_def map_of_map split: option.splits)

lemma sorted_wrt_keep:
  "sorted_wrt P xs \<Longrightarrow> sorted_wrt P (map fst (filter snd (zip xs k)))"
proof (induction xs arbitrary: k)
  case Nil
  then show ?case by simp
next
  case (Cons x xs)
  show ?case
  proof (cases k)
    case Nil
    then show ?thesis by simp
  next
    case (Cons b bs)
    have "\<forall>y \<in> set (map fst (filter snd (zip xs bs))). P x y"
      using Cons.prems by (auto dest: set_zip_leftD)
    then show ?thesis using Cons Cons.IH [of bs] Cons.prems by auto
  qed
qed

lemma sorted_wrt_all: "(\<And>x y. x \<in> set xs \<Longrightarrow> y \<in> set xs \<Longrightarrow> P x y) \<Longrightarrow> sorted_wrt P xs"
  by (induction xs) auto

lemma argsort_sorted:
  "sorted_wrt date_order (map (\<lambda>i. c ! i) (argsort_dates c))"
proof -
  let ?A = "sort_key (\<lambda>i. day_key (c ! i)) (filter (\<lambda>i. \<not> isna (c ! i)) [0..<length c])"
  let ?B = "filter (\<lambda>i. isna (c ! i)) [0..<length c]"
  have "sorted (map (\<lambda>i. day_key (c ! i)) ?A)" by (rule sorted_sort_key)
  then have "sorted_wrt (\<lambda>a b. day_key a \<le> day_key b) (map (\<lambda>i. c ! i) ?A)"
    by (simp add: sorted_wrt_map sorted_map)
  then have a: "sorted_wrt date_order (map (\<lambda>i. c ! i) ?A)"
    by (rule sorted_wrt_mono_rel [rotated]) (simp add: date_order_def)
  have nb: "\<forall>y \<in> set (map (\<lambda>i. c ! i) ?B). isna y" by auto
  have b: "sorted_wrt date_order (map (\<lambda>i. c ! i) ?B)"
  proof (rule sorted_wrt_all)
    fix x y assume "x \<in> set (map (\<lambda>i. c ! i) ?B)"
    with nb have "isna x" by blast
    then show "date_order x y" by (simp add: date_order_def)
  qed
  have c: "date_order x y" if "y \<in> set (map (\<lambda>i. c ! i) ?B)" for x y
  proof -
    from nb that have "isna y" by blast
    then show ?thesis by (simp add: date_order_def)
  qed
  have "sorted_wrt date_order (map (\<lambda>i. c ! i) ?A @ map (\<lambda>i. c ! i) ?B)"
    unfolding sorted_wrt_append using a b c by blast
  then show ?thesis by (simp only: argsort_dates_def map_append)
qed

lemma zip_mask:
  "(d, b) \<in> set (zip c (map f [0..<n])) \<Longrightarrow> \<exists>i < n. i < length c \<and> d = c ! i \<and> b = f i"
  by (auto simp: set_zip)

lemma argsort_set: "i \<in> set (argsort_dates c) \<Longrightarrow> i < length c"
  by (auto simp: argsort_dates_def)

lemma date_cell_day: "d \<in> set (align n (map date_cell ds)) \<Longrightarrow> \<not> isna d \<Longrightarrow> \<exists>k. d = Day k"
  using set_align [of n "map date_cell ds"]
  by (auto simp: date_cell_def split: option.splits)

lemma numeric_cell_num:
  "d \<in> set (align n (map (\<lambda>c. of_float (f c)) cs)) \<Longrightarrow> \<not> isna d \<Longrightarrow> \<exists>p. d = Num p"
proof -
  assume d: "d \<in> set (align n (map (\<lambda>c. of_float (f c)) cs))" and na: "\<not> isna d"
  from d set_align [of n "map (\<lambda>c. of_float (f c)) cs"]
  have "d = NaN \<or> (\<exists>c. d = of_float (f c))" by auto
  moreover have "\<not> isna (of_float x) \<Longrightarrow> \<exists>p. of_float x = Num p" for x
    by (cases x) auto
  ultimately show ?thesis using na by auto
qed

lemma wf_take_rows: "wf_frame (take_rows idx df)"
  by (cases df) (auto simp: wf_frame_def take_rows_def nrows_def list_all_iff)

lemma nrows_update:
  "df \<noteq> [] \<Longrightarrow> length c = nrows df \<Longrightarrow> nrows (AList.update name c df) = nrows df"
  by (cases df) (auto simp: nrows_def)

lemma set_update: "set (AList.update k v al) \<subseteq> insert (k, v) (set al)"
  by (induction al) auto

lemma wf_setitem: "wf_frame df \<Longrightarrow> wf_frame (setitem df name c)"
proof (cases "df = []")
  case True
  then show ?thesis by (simp add: setitem_def wf_frame_def nrows_def align_def)
next
  case False
  assume wf: "wf_frame df"
  have n: "nrows (setitem df name c) = nrows df"
    unfolding setitem_def by (rule nrows_update [OF False]) simp
  show ?thesis
    unfolding wf_frame_def n list_all_iff
    using wf set_update [of name "align (nrows df) c" df]
    by (auto simp: setitem_def wf_frame_def list_all_iff)
qed

lemma length_keep: "length c = length c' \<Longrightarrow>
    length (filter snd (zip c k)) = length (filter snd (zip c' k))"
proof (induction c arbitrary: c' k)
  case Nil
  then show ?case by simp
next
  case (Cons x xs)
  then obtain y ys where c': "c' = y # ys" by (cases c') auto
  with Cons show ?case by (cases k) auto
qed

lemma wf_keep_rows: "wf_frame df \<Longrightarrow> wf_frame (keep_rows k df)"
proof (cases df)
  case Nil
  then show ?thesis by (simp add: wf_frame_def keep_rows_def)
next
  case (Cons a rest)
  assume wf: "wf_frame df"
  obtain n0 c0 where a: "a = (n0, c0)" by (cases a)
  have n: "nrows (keep_rows k df) = length (filter snd (zip c0 k))"
    using Cons a by (simp add: nrows_def keep_rows_def)
  have c0: "nrows df = length c0" using Cons a by (simp add: nrows_def)
  show ?thesis
    unfolding wf_frame_def n list_all_iff
    using wf c0 by (auto simp: keep_rows_def wf_frame_def list_all_iff intro!: length_keep)
qed

lemma sorted_day_keys:
  assumes "sorted_wrt date_order D" and "\<forall>d \<in> set D. \<exists>k. d = Day k"
  shows "D = map Day (map day_key D) \<and> sorted (map day_key D)"
proof -
  have "sorted_wrt (\<lambda>a b. day_key a \<le> day_key b) D"
    using assms(1)
    by (rule sorted_wrt_mono_rel [rotated]) (use assms(2) in \<open>auto simp: date_order_def\<close>)
  then have "sorted (map day_key D)" by (simp add: sorted_map)
  moreover have "D = map Day (map day_key D)"
    using assms(2) by (induction D) auto
  ultimately show ?thesis by simp
qed

text \<open>The frame before the cumulative column is added.\<close>

lemma preprocess_columns:
  assumes "preprocess_fund_data pd (Some raw) = (Some df, lg)"
  obtains df4 D N first_v nav where
    "df = setitem df4 ''cum_nav'' (map (\<lambda>x. of_float (fdiv x first_v)) nav)"
    "wf_frame df4"
    "getitem df4 ''date'' = Inr D" "sorted_wrt date_order D" "\<forall>d \<in> set D. \<exists>k. d = Day k"
    "getitem df4 ''nav'' = Inr N" "\<forall>d \<in> set N. \<exists>p. d = Num p" "N \<noteq> []"
    "as_float (N ! 0) = Inr first_v" "floats_of N = Inr nav"
proof -
  from assms obtain src src_c ds df2 nc raw_nav df4 nav_c first_c first_v nav where
    r: "sort_values_date (setitem raw ''date'' (map date_cell ds)) = Inr df2"
    "getitem df2 nc = Inr raw_nav"
    "dropna_rows (setitem df2 ''nav'' (map (\<lambda>c. of_float (to_numeric pd c)) raw_nav))
        [''nav'', ''date''] = Inr df4"
    "getitem df4 ''nav'' = Inr nav_c" "iloc nav_c 0 = Inr first_c"
    "as_float first_c = Inr first_v" "floats_of nav_c = Inr nav"
    "df = setitem df4 ''cum_nav'' (map (\<lambda>x. of_float (fdiv x first_v)) nav)"
    by (rule preprocess_result)
  let ?df1 = "setitem raw ''date'' (map date_cell ds)"
  let ?date1 = "align (nrows raw) (map date_cell ds)"
  let ?date2 = "map (\<lambda>i. ?date1 ! i) (argsort_dates ?date1)"
  let ?df3 = "setitem df2 ''nav'' (map (\<lambda>c. of_float (to_numeric pd c)) raw_nav)"
  let ?nav3 = "align (nrows df2) (map (\<lambda>c. of_float (to_numeric pd c)) raw_nav)"
  let ?keep = "map (\<lambda>i. list_all (\<lambda>c. \<not> isna (c ! i)) [?nav3, ?date2]) [0..<nrows ?df3]"
  have d1: "getitem ?df1 ''date'' = Inr ?date1" by (simp add: getitem_setitem)
  with r(1) have df2: "df2 = take_rows (argsort_dates ?date1) ?df1"
    by (auto simp: sort_values_date_def)
  have d2: "getitem df2 ''date'' = Inr ?date2"
    unfolding df2 by (rule getitem_take_rows [OF d1])
  have wf2: "wf_frame df2" unfolding df2 by (rule wf_take_rows)
  have d3: "getitem ?df3 ''date'' = Inr ?date2" and n3: "getitem ?df3 ''nav'' = Inr ?nav3"
    using d2 by (simp_all add: getitem_setitem)
  have wf3: "wf_frame ?df3" using wf2 by (rule wf_setitem)
  from r(3) have df4: "df4 = keep_rows ?keep ?df3"
    by (simp add: dropna_rows_def d3 n3)
  have wf4: "wf_frame df4" unfolding df4 using wf3 by (rule wf_keep_rows)
  let ?D = "map fst (filter snd (zip ?date2 ?keep))"
  let ?N = "map fst (filter snd (zip ?nav3 ?keep))"
  have d4: "getitem df4 ''date'' = Inr ?D"
    unfolding df4 getitem_keep_rows_iff using d3 by simp
  have n4: "getitem df4 ''nav'' = Inr ?N"
    unfolding df4 getitem_keep_rows_iff using n3 by simp
  have N: "nav_c = ?N" using n4 r(4) by simp
  have sD: "sorted_wrt date_order ?D"
    by (rule sorted_wrt_keep) (rule argsort_sorted)
  have D_day: "\<forall>d \<in> set ?D. \<exists>k. d = Day k"
  proof
    fix d assume "d \<in> set ?D"
    then have "(d, True) \<in> set (zip ?date2 ?keep)" by auto
    from zip_mask [OF this] obtain i where i: "i < length ?date2" "d = ?date2 ! i"
      "list_all (\<lambda>c. \<not> isna (c ! i)) [?nav3, ?date2]" by auto
    then have na: "\<not> isna d" by simp
    have "d \<in> set ?date2" using i(1,2) by (metis nth_mem)
    then have "d \<in> set ?date1" using argsort_set [of _ ?date1] by auto
    from date_cell_day [OF this na] show "\<exists>k. d = Day k" .
  qed
  have N_num: "\<forall>d \<in> set ?N. \<exists>p. d = Num p"
  proof
    fix d assume "d \<in> set ?N"
    then have "(d, True) \<in> set (zip ?nav3 ?keep)" by auto
    from zip_mask [OF this] obtain i where i: "i < length ?nav3" "d = ?nav3 ! i"
      "list_all (\<lambda>c. \<not> isna (c ! i)) [?nav3, ?date2]" by auto
    then have na: "\<not> isna d" by simp
    have "d \<in> set ?nav3" using i(1,2) by (metis nth_mem)
    from numeric_cell_num [OF this na] show "\<exists>p. d = Num p" .
  qed
  have ne: "?N \<noteq> []" and first: "first_c = ?N ! 0"
    using r(5) N by (auto simp: iloc_def Let_def split: if_splits)
  show ?thesis
    by (rule that [OF r(8) wf4 d4 sD D_day n4 N_num ne])
       (use r(6,7) first N in auto)
qed

lemma all_Num: "\<forall>d \<in> set N. \<exists>p. d = Num p \<Longrightarrow> \<exists>ps. N = map Num ps"
proof (induction N)
  case Nil
  then show ?case by simp
next
  case (Cons d N)
  then obtain p ps where "d = Num p" "N = map Num ps" by auto
  then have "d # N = map Num (p # ps)" by simp
  then show ?case by (rule exI)
qed

lemma preprocess_sources:
  assumes "preprocess_fund_data pd (Some raw) = (Some df, lg)"
  obtains src src_c ds df2 nc raw_nav df4 cum where
    "date_source raw = Some src"
    "getitem raw src = Inr src_c" "map_e (to_datetime pd) src_c = Inr ds"
    "sort_values_date (setitem raw ''date'' (map date_cell ds)) = Inr df2"
    "nav_column df2 = Some nc" "getitem df2 nc = Inr raw_nav"
    "dropna_rows (setitem df2 ''nav'' (map (\<lambda>c. of_float (to_numeric pd c)) raw_nav))
        [''nav'', ''date''] = Inr df4"
    "df = setitem df4 ''cum_nav'' cum" "\<not> df_empty raw"
proof -
  from assms obtain src where ne: "\<not> df_empty raw" and src: "date_source raw = Some src"
    and body: "preprocess_body pd raw src = Inr (Some df)"
    by (auto simp: preprocess_fund_data_def split: if_splits option.splits sum.splits)
  from body show ?thesis
    unfolding preprocess_body_def
    apply (elim then_e_InrE)
    apply (simp split: option.splits)
    apply (elim then_e_InrE)
    using that ne src by auto
qed

lemma mset_partition: "mset (filter (\<lambda>x. \<not> P x) xs) + mset (filter P xs) = mset xs"
  by (induction xs) auto

lemma mset_argsort: "mset (argsort_dates c) = mset [0..<length c]"
  unfolding argsort_dates_def by (simp only: mset_append mset_sort mset_partition)

lemma keep_zip:
  "length xs = length ys \<Longrightarrow>
     zip (map fst (filter snd (zip xs k))) (map fst (filter snd (zip ys k)))
       = map fst (filter snd (zip (zip xs ys) k))"
proof (induction xs ys arbitrary: k rule: list_induct2)
  case Nil
  then show ?case by simp
next
  case (Cons x xs y ys)
  then show ?case by (cases k) auto
qed

lemma keep_pred: "map fst (filter snd (zip zs (map P zs))) = filter P zs"
  by (induction zs) auto

lemma has_col_take_rows: "has_col (take_rows idx df) k = has_col df k"
  by (auto simp: has_col_def df_columns_def take_rows_def intro: rev_image_eqI)

lemma has_col_setitem: "has_col (setitem df name c) k \<longleftrightarrow> k = name \<or> has_col df k"
  by (auto simp: setitem_def has_col_def df_columns_def dom_update)

lemma has_col_getitem: "has_col df k \<Longrightarrow> \<exists>c. getitem df k = Inr c"
  by (auto simp: has_col_def df_columns_def getitem_def split: option.splits
      dest: weak_map_of_SomeI simp: map_of_eq_None_iff)

lemma nrows_take_rows: "df \<noteq> [] \<Longrightarrow> nrows (take_rows idx df) = length idx"
  by (cases df) (auto simp: nrows_def take_rows_def)

lemma nrows_setitem: "df \<noteq> [] \<Longrightarrow> nrows (setitem df name c) = nrows df"
  unfolding setitem_def by (rule nrows_update) simp_all

lemma setitem_nonempty: "setitem df name c \<noteq> []"
  by (cases df) (auto simp: setitem_def)

lemma take_rows_nonempty: "df \<noteq> [] \<Longrightarrow> take_rows idx df \<noteq> []"
  by (simp add: take_rows_def)

lemma valid_rows_cells:
  assumes "length src_c = length nav_c" "length ds = length src_c"
    and "\<forall>i < length src_c. to_datetime pd (src_c ! i) = Inr (ds ! i)"
  shows "filter (\<lambda>(d, v). \<not> isna v \<and> \<not> isna d)
           (zip (map date_cell ds) (map (\<lambda>c. of_float (to_numeric pd c)) nav_c))
         = map (\<lambda>(k, p). (Day k, Num p))
             (List.map_filter
                (\<lambda>(c, v). case (to_datetime pd c, to_numeric pd v) of
                             (Inr (Some k), Some p) \<Rightarrow> Some (k, p)
                           | _ \<Rightarrow> None)
                (zip src_c nav_c))"
  using assms
proof (induction src_c nav_c arbitrary: ds rule: list_induct2)
  case Nil
  then show ?case by (simp add: map_filter_simps)
next
  case (Cons c cs v vs)
  then obtain d ds' where ds: "ds = d # ds'" by (cases ds) auto
  from Cons.prems ds have hd: "to_datetime pd c = Inr d" by auto
  from Cons.prems ds have tl: "\<forall>i < length cs. to_datetime pd (cs ! i) = Inr (ds' ! i)" by auto
  from Cons.prems ds have len: "length ds' = length cs" by simp
  note IH = Cons.IH [OF len tl]
  show ?case
    unfolding ds using IH hd
    by (cases d; cases "to_numeric pd v") (simp_all add: map_filter_simps date_cell_def)
qed

lemma mset_take_all:
  assumes "mset idx = mset [0..<length zs]"
  shows "mset (map (\<lambda>i. zs ! i) idx) = mset zs"
proof -
  have "mset (map (\<lambda>i. zs ! i) idx) = image_mset (\<lambda>i. zs ! i) (mset idx)" by simp
  also have "\<dots> = image_mset (\<lambda>i. zs ! i) (mset [0..<length zs])" by (simp only: assms)
  also have "\<dots> = mset (map (\<lambda>i. zs ! i) [0..<length zs])" by simp
  also have "\<dots> = mset zs" by (simp only: map_nth)
  finally show ?thesis .
qed


lemma nav_column_cong:
  "(\<And>k. k \<noteq> ''date'' \<Longrightarrow> has_col a k = has_col b k) \<Longrightarrow> nav_column a = nav_column b"
  by (simp add: nav_column_def)

lemma preprocess_rows:
  assumes res: "preprocess_fund_data pd (Some raw) = (Some df, lg)" and wf: "wf_frame raw"
  obtains D N where "getitem df ''date'' = Inr D" "getitem df ''nav'' = Inr N"
    "mset (zip D N) = mset (map (\<lambda>(k, p). (Day k, Num p)) (valid_rows pd raw))"
proof -
  from res obtain src src_c ds df2 nc raw_nav df4 cum where
    r: "date_source raw = Some src"
    "getitem raw src = Inr src_c" "map_e (to_datetime pd) src_c = Inr ds"
    "sort_values_date (setitem raw ''date'' (map date_cell ds)) = Inr df2"
    "nav_column df2 = Some nc" "getitem df2 nc = Inr raw_nav"
    "dropna_rows (setitem df2 ''nav'' (map (\<lambda>c. of_float (to_numeric pd c)) raw_nav))
        [''nav'', ''date''] = Inr df4"
    "df = setitem df4 ''cum_nav'' cum" "\<not> df_empty raw"
    by (rule preprocess_sources)
  let ?f = "\<lambda>c. of_float (to_numeric pd c)"
  let ?Q = "\<lambda>(d, v). \<not> isna v \<and> \<not> isna d"
  let ?date1 = "map date_cell ds"
  let ?df1 = "setitem raw ''date'' ?date1"
  let ?idx = "argsort_dates ?date1"
  have len_src: "length src_c = nrows raw" by (rule wf_getitem_length [OF wf r(2)])
  from map_e_Inr [OF r(3)] have len_ds: "length ds = length src_c"
    and dt: "\<forall>i < length src_c. to_datetime pd (src_c ! i) = Inr (ds ! i)" by simp_all
  have al: "align (nrows raw) ?date1 = ?date1"
    by (rule align_same) (simp add: len_ds len_src)
  have d1: "getitem ?df1 ''date'' = Inr ?date1" by (simp add: getitem_setitem al)
  with r(4) have df2: "df2 = take_rows ?idx ?df1" by (auto simp: sort_values_date_def)
  have "nav_column df2 = nav_column raw"
    unfolding df2 by (rule nav_column_cong) (simp add: has_col_take_rows has_col_setitem)
  with r(5) have ncr: "nav_column raw = Some nc" by simp
  then have nc: "nc \<noteq> ''date''" "has_col raw nc"
    by (auto simp: nav_column_def split: if_splits)
  from has_col_getitem [OF nc(2)] obtain nav_c where navc: "getitem raw nc = Inr nav_c" by blast
  have len_nav: "length nav_c = nrows raw" by (rule wf_getitem_length [OF wf navc])
  have "getitem ?df1 nc = Inr nav_c" using nc(1) navc by (simp add: getitem_setitem)
  from getitem_take_rows [OF this] have "getitem df2 nc = Inr (map (\<lambda>i. nav_c ! i) ?idx)"
    unfolding df2 .
  with r(6) have raw_nav: "raw_nav = map (\<lambda>i. nav_c ! i) ?idx" by simp
  have df2_ne: "df2 \<noteq> []" unfolding df2 by (rule take_rows_nonempty) (rule setitem_nonempty)
  have n2: "nrows df2 = length ?idx"
    unfolding df2 by (rule nrows_take_rows) (rule setitem_nonempty)
  let ?date2 = "map (\<lambda>i. ?date1 ! i) ?idx"
  let ?nav3 = "map (\<lambda>i. ?f (nav_c ! i)) ?idx"
  let ?df3 = "setitem df2 ''nav'' (map ?f raw_nav)"
  have m3: "map ?f raw_nav = ?nav3" by (simp add: raw_nav o_def)
  have al3: "align (nrows df2) (map ?f raw_nav) = ?nav3"
    unfolding m3 by (rule align_same) (simp add: n2)
  have n3: "nrows ?df3 = length ?idx" using nrows_setitem [OF df2_ne] n2 by simp
  have d2: "getitem df2 ''date'' = Inr ?date2"
    unfolding df2 by (rule getitem_take_rows [OF d1])
  have d3: "getitem ?df3 ''date'' = Inr ?date2" using d2 by (simp add: getitem_setitem)
  have v3: "getitem ?df3 ''nav'' = Inr ?nav3" by (simp add: getitem_setitem al3)
  let ?keep = "map (\<lambda>i. list_all (\<lambda>c. \<not> isna (c ! i)) [?nav3, ?date2]) [0..<length ?idx]"
  from r(7) have df4: "df4 = keep_rows ?keep ?df3"
    by (simp add: dropna_rows_def d3 v3 n3)
  let ?D = "map fst (filter snd (zip ?date2 ?keep))"
  let ?N = "map fst (filter snd (zip ?nav3 ?keep))"
  have d4: "getitem df4 ''date'' = Inr ?D"
    unfolding df4 getitem_keep_rows_iff using d3 by simp
  have v4: "getitem df4 ''nav'' = Inr ?N"
    unfolding df4 getitem_keep_rows_iff using v3 by simp
  have gd: "getitem df ''date'' = Inr ?D" using d4 by (simp add: r(8) getitem_setitem)
  have gv: "getitem df ''nav'' = Inr ?N" using v4 by (simp add: r(8) getitem_setitem)
  let ?zs = "zip ?date2 ?nav3"
  let ?raw_zs = "zip ?date1 (map ?f nav_c)"
  have keep: "?keep = map ?Q ?zs" by (rule nth_equalityI) simp_all
  have "zip ?D ?N = map fst (filter snd (zip ?zs ?keep))" by (rule keep_zip) simp
  also have "\<dots> = filter ?Q ?zs" unfolding keep by (rule keep_pred)
  finally have z: "zip ?D ?N = filter ?Q ?zs" .
  have len_zs: "length ?raw_zs = length ?date1" by (simp add: len_ds len_src len_nav)
  have "?zs = map (\<lambda>i. (?date1 ! i, ?f (nav_c ! i))) ?idx"
    by (simp add: zip_map_map zip_same_conv_map)
  also have "\<dots> = map (\<lambda>i. ?raw_zs ! i) ?idx"
  proof (rule map_cong [OF refl])
    fix i assume "i \<in> set ?idx"
    then have "i < length ?date1" by (rule argsort_set)
    then show "(?date1 ! i, ?f (nav_c ! i)) = ?raw_zs ! i"
      by (simp add: len_ds len_src len_nav)
  qed
  finally have zs: "?zs = map (\<lambda>i. ?raw_zs ! i) ?idx" .
  have "mset ?idx = mset [0..<length ?raw_zs]" unfolding len_zs by (rule mset_argsort)
  then have "mset ?zs = mset ?raw_zs" unfolding zs by (rule mset_take_all)
  then have "mset (filter ?Q ?zs) = mset (filter ?Q ?raw_zs)" by (simp only: mset_filter)
  moreover have "filter ?Q ?raw_zs = map (\<lambda>(k, p). (Day k, Num p)) (valid_rows pd raw)"
    using valid_rows_cells [of src_c nav_c ds pd] len_src len_nav len_ds dt
    by (simp add: valid_rows_def r(1) ncr r(2) navc)
  ultimately have "mset (zip ?D ?N) = mset (map (\<lambda>(k, p). (Day k, Num p)) (valid_rows pd raw))"
    by (simp only: z)
  with gd gv show ?thesis by (rule that)
qed

lemma mset_rows_of_cells:
  assumes "mset (zip (map Day ks) (map Num ps)) = mset (map (\<lambda>(k, p). (Day k, Num p)) rows)"
  shows "mset (zip ks ps) = mset rows"
proof -
  define unwrap where "unwrap = (\<lambda>(d, v). (day_key d, case v of Num p \<Rightarrow> p | _ \<Rightarrow> 0))"
  have b: "map unwrap (map (\<lambda>(k, p). (Day k, Num p)) xs) = xs" for xs :: "(int \<times> real) list"
    by (induction xs) (auto simp: unwrap_def)
  have "zip (map Day ks) (map Num ps) = map (\<lambda>(k, p). (Day k, Num p)) (zip ks ps)"
    by (simp add: zip_map_map)
  with assms have "mset (map (\<lambda>(k, p). (Day k, Num p)) (zip ks ps))
      = mset (map (\<lambda>(k, p). (Day k, Num p)) rows)" by simp
  then have "image_mset unwrap (mset (map (\<lambda>(k, p). (Day k, Num p)) (zip ks ps)))
      = image_mset unwrap (mset (map (\<lambda>(k, p). (Day k, Num p)) rows))" by (rule arg_cong)
  then have "mset (map unwrap (map (\<lambda>(k, p). (Day k, Num p)) (zip ks ps)))
      = mset (map unwrap (map (\<lambda>(k, p). (Day k, Num p)) rows))" by (simp only: mset_map)
  then show ?thesis by (simp only: b)
qed

text \<open>
  Claim C2, as the code has it. Whatever the converters of pandas do and whatever the raw
  rows are, the date column of a frame returned by \<^verbatim>\<open>preprocess_fund_data\<close> holds
  timestamps only, in ascending order, and the price column numbers only. The function
  never drops a duplicate: on a raw frame whose columns have the length of its index, the
  rows of the result, read as pairs of date and price, are the raw rows that have a date
  and a price, each as many times as it is in the raw frame. So rows of equal date all
  stay, and the dates of the result are strictly increasing exactly when no two of these
  raw rows have the same date.
\<close>

theorem dates_sorted_ascending:
  assumes "preprocess_fund_data pd (Some raw) = (Some df, lg)"
  shows "\<exists>ks ps. getitem df ''date'' = Inr (map Day ks) \<and> getitem df ''nav'' = Inr (map Num ps)
           \<and> length ks = length ps \<and> sorted ks
           \<and> (sorted_wrt (<) ks \<longleftrightarrow> distinct ks)
           \<and> (wf_frame raw \<longrightarrow>
                mset (zip ks ps) = mset (valid_rows pd raw)
                \<and> (sorted_wrt (<) ks \<longleftrightarrow> distinct (map fst (valid_rows pd raw))))"
proof -
  from assms obtain df4 D N first_v nav where
    df: "df = setitem df4 ''cum_nav'' (map (\<lambda>x. of_float (fdiv x first_v)) nav)"
    and wf4: "wf_frame df4"
    and D: "getitem df4 ''date'' = Inr D" "sorted_wrt date_order D" "\<forall>d \<in> set D. \<exists>k. d = Day k"
    and N: "getitem df4 ''nav'' = Inr N" "\<forall>d \<in> set N. \<exists>p. d = Num p"
    by (rule preprocess_columns)
  define ks where "ks = map day_key D"
  from sorted_day_keys [OF D(2,3)] have Dk: "D = map Day ks" and sk: "sorted ks"
    by (simp_all add: ks_def)
  from all_Num [OF N(2)] obtain ps where ps: "N = map Num ps" by blast
  have gd: "getitem df ''date'' = Inr (map Day ks)"
    using D(1) by (simp add: df getitem_setitem Dk)
  have gv: "getitem df ''nav'' = Inr (map Num ps)"
    using N(1) by (simp add: df getitem_setitem ps)
  have "length D = length N"
    using wf_getitem_length [OF wf4 D(1)] wf_getitem_length [OF wf4 N(1)] by simp
  then have len: "length ks = length ps" by (simp add: Dk ps)
  have strict: "sorted_wrt (<) ks \<longleftrightarrow> distinct ks" using sk by (simp add: strict_sorted_iff)
  have rows: "mset (zip ks ps) = mset (valid_rows pd raw)"
    and uniq: "sorted_wrt (<) ks \<longleftrightarrow> distinct (map fst (valid_rows pd raw))"
    if wf: "wf_frame raw"
  proof -
    from assms wf obtain D' N' where
      r: "getitem df ''date'' = Inr D'" "getitem df ''nav'' = Inr N'"
      "mset (zip D' N') = mset (map (\<lambda>(k, p). (Day k, Num p)) (valid_rows pd raw))"
      by (rule preprocess_rows)
    from r(1,2) gd gv have "D' = map Day ks" "N' = map Num ps" by simp_all
    with r(3) show m: "mset (zip ks ps) = mset (valid_rows pd raw)"
      by (simp only: mset_rows_of_cells)
    then have "image_mset fst (mset (zip ks ps)) = image_mset fst (mset (valid_rows pd raw))"
      by (rule arg_cong)
    then have "mset (map fst (zip ks ps)) = mset (map fst (valid_rows pd raw))"
      by (simp only: mset_map)
    then have "mset ks = mset (map fst (valid_rows pd raw))" using len by simp
    then have "distinct ks \<longleftrightarrow> distinct (map fst (valid_rows pd raw))"
      by (rule mset_eq_imp_distinct_iff)
    with strict show "sorted_wrt (<) ks \<longleftrightarrow> distinct (map fst (valid_rows pd raw))" by simp
  qed
  from gd gv len sk strict rows uniq show ?thesis by blast
qed

text \<open>
  Claim C7. A frame returned by \<^verbatim>\<open>preprocess_fund_data\<close> has at least one row and its
  price column holds numbers only; when these prices are all positive, the cumulative
  column is the price column divided by the first price, position by position, and its
  first value is exactly 1.
\<close>

theorem cumulative_is_price_over_first:
  assumes "preprocess_fund_data pd (Some raw) = (Some df, lg)"
  shows "\<exists>ps. ps \<noteq> [] \<and> getitem df ''nav'' = Inr (map Num ps)
           \<and> ((\<forall>p \<in> set ps. 0 < p) \<longrightarrow>
                getitem df ''cum_nav'' = Inr (map (\<lambda>p. Num (p / hd ps)) ps)
                \<and> then_e (getitem df ''cum_nav'') (\<lambda>c. iloc c 0) = Inr (Num 1))"
proof -
  from assms obtain df4 N first_v nav where
    df: "df = setitem df4 ''cum_nav'' (map (\<lambda>x. of_float (fdiv x first_v)) nav)"
    and wf: "wf_frame df4"
    and N: "getitem df4 ''nav'' = Inr N" "\<forall>d \<in> set N. \<exists>p. d = Num p" "N \<noteq> []"
      "as_float (N ! 0) = Inr first_v" "floats_of N = Inr nav"
    by (rule preprocess_columns)
  from all_Num [OF N(2)] obtain ps where ps: "N = map Num ps" by blast
  have ne: "ps \<noteq> []" using N(3) ps by simp
  have nav: "nav = map Some ps" using N(5) by (simp add: ps floats_of_Num)
  have first: "first_v = Some (hd ps)" using N(4) ne by (cases ps) (auto simp: ps)
  have len: "nrows df4 = length ps" using wf_getitem_length [OF wf N(1)] by (simp add: ps)
  have n: "getitem df ''nav'' = Inr (map Num ps)" using N(1) by (simp add: df getitem_setitem ps)
  have c: "getitem df ''cum_nav'' = Inr (map (\<lambda>p. Num (p / hd ps)) ps)"
    and c0: "then_e (getitem df ''cum_nav'') (\<lambda>c. iloc c 0) = Inr (Num 1)"
    if pos: "\<forall>p \<in> set ps. 0 < p"
  proof -
    have h: "hd ps \<noteq> 0" using pos ne by (cases ps) auto
    have "map (\<lambda>x. of_float (fdiv x first_v)) nav = map (\<lambda>p. Num (p / hd ps)) ps"
      using h by (simp add: nav first fdiv_def)
    then show c: "getitem df ''cum_nav'' = Inr (map (\<lambda>p. Num (p / hd ps)) ps)"
      by (simp add: df getitem_setitem len align_same)
    show "then_e (getitem df ''cum_nav'') (\<lambda>c. iloc c 0) = Inr (Num 1)"
      using ne h by (cases ps) (simp_all add: c iloc_def)
  qed
  from ne n c c0 show ?thesis by blast
qed

lemma preprocess_steps:
  assumes ne: "\<not> df_empty raw" and src: "date_source raw = Some src"
    and 1: "getitem raw src = Inr src_c"
    and 2: "map_e (to_datetime pd) src_c = Inr ds"
    and 3: "sort_values_date (setitem raw ''date'' (map date_cell ds)) = Inr df2"
    and 4: "nav_column df2 = Some nc"
    and 5: "getitem df2 nc = Inr raw_nav"
    and 6: "dropna_rows (setitem df2 ''nav'' (map (\<lambda>c. of_float (to_numeric pd c)) raw_nav))
              [''nav'', ''date''] = Inr df4"
    and 7: "getitem df4 ''nav'' = Inr nav_c"
    and 8: "iloc nav_c 0 = Inr first_c" "as_float first_c = Inr first_v"
    and 9: "floats_of nav_c = Inr nav"
  shows "preprocess_fund_data pd (Some raw) =
           (Some (setitem df4 ''cum_nav'' (map (\<lambda>x. of_float (fdiv x first_v)) nav)), [])"
  by (simp add: preprocess_fund_data_def preprocess_body_def ne src 1 2 3 4 5 6 7 8 9)

lemma unsorted_raw_result:
  "preprocess_fund_data vendor_pandas (Some unsorted_raw) =
     (Some [(''ann_date'', [Str ''20240101'', Str ''20240103'']),
            (''unit_nav'', [Num 2, Num (24 / 10)]),
            (''date'', [Day 20240101, Day 20240103]),
            (''nav'', [Num 2, Num (24 / 10)]),
            (''cum_nav'', [Num 1, Num (12 / 10)])], [])"
proof -
  let ?df2 = "[(''ann_date'', [Str ''20240101'', Str ''20240102'', Str ''20240103'']),
        (''unit_nav'', [Num 2, NaN, Num (24 / 10)]),
        (''date'', [Day 20240101, Day 20240102, Day 20240103])]"
  let ?df4 = "[(''ann_date'', [Str ''20240101'', Str ''20240103'']),
        (''unit_nav'', [Num 2, Num (24 / 10)]),
        (''date'', [Day 20240101, Day 20240103]),
        (''nav'', [Num 2, Num (24 / 10)])]"
  have ne: "\<not> df_empty unsorted_raw" and src: "date_source unsorted_raw = Some ''ann_date''"
    and 1: "getitem unsorted_raw ''ann_date'' = Inr [Str ''20240103'', Str ''20240101'', Str ''20240102'']"
    by (simp_all add: unsorted_raw_def df_empty_def nrows_def date_source_def has_col_def
        df_columns_def getitem_def)
  have 2: "map_e (to_datetime vendor_pandas) [Str ''20240103'', Str ''20240101'', Str ''20240102'']
             = Inr [Some 20240103, Some 20240101, Some 20240102]"
    by (simp add: vendor_pandas_def digit_val_def)
  have a: "argsort_dates [Day 20240103, Day 20240101, Day 20240102] = [1, 2, 0]"
    by (simp add: argsort_dates_def upt_rec)
  have 3: "sort_values_date (setitem unsorted_raw ''date''
             (map date_cell [Some 20240103, Some 20240101, Some 20240102])) = Inr ?df2"
    by (simp add: sort_values_date_def getitem_def setitem_def align_def nrows_def
        unsorted_raw_def date_cell_def a take_rows_def)
  have 4: "nav_column ?df2 = Some ''unit_nav''"
    by (simp add: nav_column_def has_col_def df_columns_def)
  have 5: "getitem ?df2 ''unit_nav'' = Inr [Num 2, NaN, Num (24 / 10)]"
    by (simp add: getitem_def)
  have 6: "dropna_rows (setitem ?df2 ''nav''
             (map (\<lambda>c. of_float (to_numeric vendor_pandas c)) [Num 2, NaN, Num (24 / 10)]))
             [''nav'', ''date''] = Inr ?df4"
    by (simp add: dropna_rows_def setitem_def align_def nrows_def getitem_def vendor_pandas_def
        keep_rows_def upt_rec)
  have 7: "getitem ?df4 ''nav'' = Inr (map Num [2, 24 / 10])"
    by (simp add: getitem_def)
  have 8: "iloc (map Num [2, 24 / 10 :: real]) 0 = Inr (Num 2)" "as_float (Num 2) = Inr (Some 2)"
    by (simp_all add: iloc_def)
  show ?thesis
    unfolding preprocess_steps [OF ne src 1 2 3 4 5 6 7 8 floats_of_Num]
    by (simp add: setitem_def align_def nrows_def fdiv_def)
qed

lemma repeated_dates_raw_result:
  "preprocess_fund_data vendor_pandas (Some repeated_dates_raw) =
     (Some [(''ann_date'', [Str ''20240102'', Str ''20240102'', Str ''20240103'']),
            (''unit_nav'', [Num 1, Num (11 / 10), Num (12 / 10)]),
            (''date'', [Day 20240102, Day 20240102, Day 20240103]),
            (''nav'', [Num 1, Num (11 / 10), Num (12 / 10)]),
            (''cum_nav'', [Num 1, Num (11 / 10), Num (12 / 10)])], [])"
proof -
  let ?df2 = "[(''ann_date'', [Str ''20240102'', Str ''20240102'', Str ''20240103'']),
        (''unit_nav'', [Num 1, Num (11 / 10), Num (12 / 10)]),
        (''date'', [Day 20240102, Day 20240102, Day 20240103])]"
  let ?df4 = "[(''ann_date'', [Str ''20240102'', Str ''20240102'', Str ''20240103'']),
        (''unit_nav'', [Num 1, Num (11 / 10), Num (12 / 10)]),
        (''date'', [Day 20240102, Day 20240102, Day 20240103]),
        (''nav'', [Num 1, Num (11 / 10), Num (12 / 10)])]"
  have ne: "\<not> df_empty repeated_dates_raw"
    and src: "date_source repeated_dates_raw = Some ''ann_date''"
    and 1: "getitem repeated_dates_raw ''ann_date''
              = Inr [Str ''20240103'', Str ''20240102'', Str ''20240102'']"
    by (simp_all add: repeated_dates_raw_def df_empty_def nrows_def date_source_def has_col_def
        df_columns_def getitem_def)
  have 2: "map_e (to_datetime vendor_pandas) [Str ''20240103'', Str ''20240102'', Str ''20240102'']
             = Inr [Some 20240103, Some 20240102, Some 20240102]"
    by (simp add: vendor_pandas_def digit_val_def)
  have a: "argsort_dates [Day 20240103, Day 20240102, Day 20240102] = [1, 2, 0]"
    by (simp add: argsort_dates_def upt_rec)
  have 3: "sort_values_date (setitem repeated_dates_raw ''date''
             (map date_cell [Some 20240103, Some 20240102, Some 20240102])) = Inr ?df2"
    by (simp add: sort_values_date_def getitem_def setitem_def align_def nrows_def
        repeated_dates_raw_def date_cell_def a take_rows_def)
  have 4: "nav_column ?df2 = Some ''unit_nav''"
    by (simp add: nav_column_def has_col_def df_columns_def)
  have 5: "getitem ?df2 ''unit_nav'' = Inr [Num 1, Num (11 / 10), Num (12 / 10)]"
    by (simp add: getitem_def)
  have 6: "dropna_rows (setitem ?df2 ''nav''
             (map (\<lambda>c. of_float (to_numeric vendor_pandas c)) [Num 1, Num (11 / 10), Num (12 / 10)]))
             [''nav'', ''date''] = Inr ?df4"
    by (simp add: dropna_rows_def setitem_def align_def nrows_def getitem_def vendor_pandas_def
        keep_rows_def upt_rec)
  have 7: "getitem ?df4 ''nav'' = Inr (map Num [1, 11 / 10, 12 / 10])"
    by (simp add: getitem_def)
  have 8: "iloc (map Num [1, 11 / 10, 12 / 10 :: real]) 0 = Inr (Num 1)"
    "as_float (Num 1) = Inr (Some 1)"
    by (simp_all add: iloc_def)
  show ?thesis
    unfolding preprocess_steps [OF ne src 1 2 3 4 5 6 7 8 floats_of_Num]
    by (simp add: setitem_def align_def nrows_def fdiv_def)
qed

text \<open>Two raw rows of the same date are both in the result: its dates are not pairwise
  distinct, hence not strictly increasing.\<close>

theorem repeated_dates_kept:
  "preprocess_fund_data vendor_pandas (Some repeated_dates_raw) =
     (Some [(''ann_date'', [Str ''20240102'', Str ''20240102'', Str ''20240103'']),
            (''unit_nav'', [Num 1, Num (11 / 10), Num (12 / 10)]),
            (''date'', [Day 20240102, Day 20240102, Day 20240103]),
            (''nav'', [Num 1, Num (11 / 10), Num (12 / 10)]),
            (''cum_nav'', [Num 1, Num (11 / 10), Num (12 / 10)])], [])
   \<and> \<not> distinct [Day 20240102, Day 20240102, Day 20240103]
   \<and> \<not> sorted_wrt (<) [20240102, 20240102, 20240103 :: int]"
  using repeated_dates_raw_result by simp

lemma valid_rows_unsorted_raw:
  "valid_rows vendor_pandas unsorted_raw = [(20240103, 24 / 10), (20240101, 2)]"
  by (simp add: valid_rows_def unsorted_raw_def date_source_def nav_column_def has_col_def
      df_columns_def getitem_def map_filter_simps vendor_pandas_def digit_val_def)

lemma valid_rows_repeated_dates_raw:
  "valid_rows vendor_pandas repeated_dates_raw
     = [(20240103, 12 / 10), (20240102, 1), (20240102, 11 / 10)]"
  by (simp add: valid_rows_def repeated_dates_raw_def date_source_def nav_column_def has_col_def
      df_columns_def getitem_def map_filter_simps vendor_pandas_def digit_val_def)

text \<open>On the rows out of order the row without a price goes and the two others stay, in
  the order of their dates; on the rows with a repeated date all three stay.\<close>

theorem dates_sorted_ascending_witness:
  "preprocess_fund_data vendor_pandas (Some unsorted_raw) =
     (Some [(''ann_date'', [Str ''20240101'', Str ''20240103'']),
            (''unit_nav'', [Num 2, Num (24 / 10)]),
            (''date'', [Day 20240101, Day 20240103]),
            (''nav'', [Num 2, Num (24 / 10)]),
            (''cum_nav'', [Num 1, Num (12 / 10)])], [])
   \<and> wf_frame unsorted_raw
   \<and> valid_rows vendor_pandas unsorted_raw = [(20240103, 24 / 10), (20240101, 2)]
   \<and> sorted [20240101, 20240103 :: int]
   \<and> sorted_wrt (<) [20240101, 20240103 :: int]
   \<and> mset (zip [20240101, 20240103 :: int] [2, 24 / 10 :: real])
       = mset (valid_rows vendor_pandas unsorted_raw)
   \<and> wf_frame repeated_dates_raw
   \<and> valid_rows vendor_pandas repeated_dates_raw
       = [(20240103, 12 / 10), (20240102, 1), (20240102, 11 / 10)]
   \<and> sorted [20240102, 20240102, 20240103 :: int]
   \<and> \<not> sorted_wrt (<) [20240102, 20240102, 20240103 :: int]
   \<and> mset (zip [20240102, 20240102, 20240103 :: int] [1, 11 / 10, 12 / 10 :: real])
       = mset (valid_rows vendor_pandas repeated_dates_raw)"
proof -
  let ?df = "[(''ann_date'', [Str ''20240101'', Str ''20240103'']),
            (''unit_nav'', [Num 2, Num (24 / 10)]),
            (''date'', [Day 20240101, Day 20240103]),
            (''nav'', [Num 2, Num (24 / 10)]),
            (''cum_nav'', [Num 1, Num (12 / 10)])]"
  let ?df' = "[(''ann_date'', [Str ''20240102'', Str ''20240102'', Str ''20240103'']),
            (''unit_nav'', [Num 1, Num (11 / 10), Num (12 / 10)]),
            (''date'', [Day 20240102, Day 20240102, Day 20240103]),
            (''nav'', [Num 1, Num (11 / 10), Num (12 / 10)]),
            (''cum_nav'', [Num 1, Num (11 / 10), Num (12 / 10)])]"
  have wf: "wf_frame unsorted_raw" by (simp add: unsorted_raw_def wf_frame_def nrows_def)
  have wf': "wf_frame repeated_dates_raw"
    by (simp add: repeated_dates_raw_def wf_frame_def nrows_def)
  from dates_sorted_ascending [OF unsorted_raw_result] wf obtain ks ps where
    k: "getitem ?df ''date'' = Inr (map Day ks)" "getitem ?df ''nav'' = Inr (map Num ps)"
    "sorted ks" "mset (zip ks ps) = mset (valid_rows vendor_pandas unsorted_raw)"
    "sorted_wrt (<) ks \<longleftrightarrow> distinct (map fst (valid_rows vendor_pandas unsorted_raw))"
    by blast
  from k(1) have "map Day ks = [Day 20240101, Day 20240103]" by (simp add: getitem_def)
  then have ks: "ks = [20240101, 20240103]" by auto
  from k(2) have "map Num ps = [Num 2, Num (24 / 10)]" by (simp add: getitem_def)
  then have ps: "ps = [2, 24 / 10]" by auto
  from k(3,4,5) have a: "sorted [20240101, 20240103 :: int]"
    "sorted_wrt (<) [20240101, 20240103 :: int]"
    "mset (zip [20240101, 20240103 :: int] [2, 24 / 10 :: real])
       = mset (valid_rows vendor_pandas unsorted_raw)"
    unfolding ks ps by (simp_all add: valid_rows_unsorted_raw)
  from dates_sorted_ascending [OF repeated_dates_raw_result] wf' obtain ks' ps' where
    k': "getitem ?df' ''date'' = Inr (map Day ks')" "getitem ?df' ''nav'' = Inr (map Num ps')"
    "sorted ks'" "mset (zip ks' ps') = mset (valid_rows vendor_pandas repeated_dates_raw)"
    "sorted_wrt (<) ks' \<longleftrightarrow> distinct (map fst (valid_rows vendor_pandas repeated_dates_raw))"
    by blast
  from k'(1) have "map Day ks' = [Day 20240102, Day 20240102, Day 20240103]"
    by (simp add: getitem_def)
  then have ks': "ks' = [20240102, 20240102, 20240103]" by auto
  from k'(2) have "map Num ps' = [Num 1, Num (11 / 10), Num (12 / 10)]"
    by (simp add: getitem_def)
  then have ps': "ps' = [1, 11 / 10, 12 / 10]" by auto
  from k'(3,4,5) have b: "sorted [20240102, 20240102, 20240103 :: int]"
    "\<not> sorted_wrt (<) [20240102, 20240102, 20240103 :: int]"
    "mset (zip [20240102, 20240102, 20240103 :: int] [1, 11 / 10, 12 / 10 :: real])
       = mset (valid_rows vendor_pandas repeated_dates_raw)"
    unfolding ks' ps' by (simp_all add: valid_rows_repeated_dates_raw)
  from unsorted_raw_result wf valid_rows_unsorted_raw a wf' valid_rows_repeated_dates_raw b
  show ?thesis by (intro conjI)
qed

theorem cumulative_is_price_over_first_witness:
  "preprocess_fund_data vendor_pandas (Some unsorted_raw) =
     (Some [(''ann_date'', [Str ''20240101'', Str ''20240103'']),
            (''unit_nav'', [Num 2, Num (24 / 10)]),
            (''date'', [Day 20240101, Day 20240103]),
            (''nav'', [Num 2, Num (24 / 10)]),
            (''cum_nav'', [Num 1, Num (12 / 10)])], [])
   \<and> (0 :: real) < 2 \<and> (0 :: real) < 24 / 10
   \<and> map (\<lambda>p. Num (p / hd [2, 24 / 10])) [2, 24 / 10] = [Num 1, Num (12 / 10)]"
  using cumulative_is_price_over_first [OF unsorted_raw_result] unsorted_raw_result by simp

section \<open>Failure of an indicator\<close>

lemma isl_then_e: "isl m \<Longrightarrow> isl (then_e m f)"
  by (cases m) auto

lemma has_col_update: "has_col (AList.update name c df) k \<longleftrightarrow> k = name \<or> has_col df k"
  by (auto simp: has_col_def df_columns_def dom_update)

lemma getitem_update:
  "getitem (AList.update name c df) k = (if k = name then Inr c else getitem df k)"
  by (simp add: getitem_def update_conv')

lemma same_inputs_update:
  assumes "same_inputs nav vol d" "name \<noteq> ''nav''" "name \<noteq> ''volume''" "length c = nrows d"
  shows "same_inputs nav vol (AList.update name c d)"
proof -
  have ne: "d \<noteq> []" using assms(1) by (auto simp: same_inputs_def getitem_def)
  have "nrows (AList.update name c d) = nrows d" using ne assms(4) by (rule nrows_update)
  then show ?thesis
    using assms by (auto simp: same_inputs_def volume_data_def has_col_update getitem_update)
qed

lemma same_inputs_setitem:
  "same_inputs nav vol d \<Longrightarrow> name \<noteq> ''nav'' \<Longrightarrow> name \<noteq> ''volume''
     \<Longrightarrow> same_inputs nav vol (setitem d name c)"
  unfolding setitem_def by (rule same_inputs_update) simp_all

lemma same_inputs_setitem_ta:
  "setitem_ta d name r = Inr d' \<Longrightarrow> same_inputs nav vol d \<Longrightarrow> name \<noteq> ''nav''
     \<Longrightarrow> name \<noteq> ''volume'' \<Longrightarrow> same_inputs nav vol d'"
  by (auto simp: setitem_ta_def same_inputs_setitem same_inputs_update
      split: ta_result.splits list.splits)

lemma ma_col_not_input [simp]: "ma_col n \<noteq> ''nav''" "ma_col n \<noteq> ''volume''"
  by (simp_all add: ma_col_def)

lemma rsi_col_not_input [simp]: "rsi_col_name n \<noteq> ''nav''" "rsi_col_name n \<noteq> ''volume''"
  by (simp_all add: rsi_col_name_def)

lemma ind_sma_keeps: "same_inputs nav vol d \<Longrightarrow> ind_sma ta n d = Inr d' \<Longrightarrow> same_inputs nav vol d'"
  unfolding ind_sma_def by (elim then_e_InrE) (erule same_inputs_setitem_ta, simp_all)

lemma ind_rsi_keeps: "same_inputs nav vol d \<Longrightarrow> ind_rsi ta n d = Inr d' \<Longrightarrow> same_inputs nav vol d'"
  unfolding ind_rsi_def by (elim then_e_InrE) (erule same_inputs_setitem_ta, simp_all)

lemma ind_boll_keeps: "same_inputs nav vol d \<Longrightarrow> ind_boll ta d = Inr d' \<Longrightarrow> same_inputs nav vol d'"
  unfolding ind_boll_def by (elim then_e_InrE) (clarsimp simp: same_inputs_setitem)

lemma ind_macd_keeps: "same_inputs nav vol d \<Longrightarrow> ind_macd ta d = Inr d' \<Longrightarrow> same_inputs nav vol d'"
  unfolding ind_macd_def by (elim then_e_InrE) (clarsimp simp: same_inputs_setitem)

lemma ind_kdj_keeps: "same_inputs nav vol d \<Longrightarrow> ind_kdj ta d = Inr d' \<Longrightarrow> same_inputs nav vol d'"
  unfolding ind_kdj_def Let_def by (elim then_e_InrE) (clarsimp simp: same_inputs_setitem)

lemma ind_cci_keeps: "same_inputs nav vol d \<Longrightarrow> ind_cci ta d = Inr d' \<Longrightarrow> same_inputs nav vol d'"
  unfolding ind_cci_def by (elim then_e_InrE) (erule same_inputs_setitem_ta, simp_all)

lemma ind_dmi_keeps: "same_inputs nav vol d \<Longrightarrow> ind_dmi ta d = Inr d' \<Longrightarrow> same_inputs nav vol d'"
  unfolding ind_dmi_def by (elim then_e_InrE) (clarsimp simp: same_inputs_setitem)

lemma ind_bbi_keeps: "same_inputs nav vol d \<Longrightarrow> ind_bbi ta d = Inr d' \<Longrightarrow> same_inputs nav vol d'"
  unfolding ind_bbi_def by (elim then_e_InrE) (clarsimp simp: same_inputs_setitem)

lemma ind_trix_keeps: "same_inputs nav vol d \<Longrightarrow> ind_trix ta d = Inr d' \<Longrightarrow> same_inputs nav vol d'"
  unfolding ind_trix_def
proof (elim then_e_InrE)
  fix nav' trix
  assume s: "same_inputs nav vol d"
    and r: "(case trix of
               TaFrame f \<Rightarrow>
                 then_e (getitem f ''TRIX_12_9'') (\<lambda>t.
                 then_e (getitem f ''TRIXs_12_9'') (\<lambda>sg.
                   Inr (setitem (setitem d ''TRIX'' t) ''TRIX_SIGNAL'' sg)))
             | _ \<Rightarrow> setitem_ta d ''TRIX'' trix) = Inr d'"
  show "same_inputs nav vol d'"
  proof (cases trix)
    case (TaFrame f)
    with r s show ?thesis
      by (auto simp: then_e_def same_inputs_setitem split: sum.splits)
  next
    case (TaSeries c)
    with r s show ?thesis by (auto elim: same_inputs_setitem_ta)
  next
    case TaNone
    with r s show ?thesis by (auto elim: same_inputs_setitem_ta)
  qed
qed

lemma ind_atr_keeps: "same_inputs nav vol d \<Longrightarrow> ind_atr ta d = Inr d' \<Longrightarrow> same_inputs nav vol d'"
  unfolding ind_atr_def by (elim then_e_InrE) (erule same_inputs_setitem_ta, simp_all)

lemma ind_obv_keeps: "same_inputs nav vol d \<Longrightarrow> ind_obv ta d = Inr d' \<Longrightarrow> same_inputs nav vol d'"
  unfolding ind_obv_def by (elim then_e_InrE) (erule same_inputs_setitem_ta, simp_all)

lemma ind_mfi_keeps: "same_inputs nav vol d \<Longrightarrow> ind_mfi ta d = Inr d' \<Longrightarrow> same_inputs nav vol d'"
  unfolding ind_mfi_def by (elim then_e_InrE) (erule same_inputs_setitem_ta, simp_all)

lemma when_selected_keeps:
  assumes "\<And>d d'. same_inputs nav vol d \<Longrightarrow> step d = Inr d' \<Longrightarrow> same_inputs nav vol d'"
  shows "same_inputs nav vol d \<Longrightarrow> when_selected sel name step d = Inr d' \<Longrightarrow> same_inputs nav vol d'"
  using assms by (auto simp: when_selected_def split: if_splits)

lemma isl_then_e_Inr: "m = Inr x \<Longrightarrow> isl (f x) \<Longrightarrow> isl (then_e m f)"
  by simp

lemma run_steps_fails:
  assumes keep: "\<And>st d d'. st \<in> set steps \<Longrightarrow> P d \<Longrightarrow> st d = Inr d' \<Longrightarrow> P d'"
    and fail: "st \<in> set steps" "\<And>d. P d \<Longrightarrow> isl (st d)"
    and start: "P df"
  shows "isl (run_steps steps df)"
  using keep fail(1) start
proof (induction steps arbitrary: df)
  case Nil
  then show ?case by simp
next
  case (Cons s steps)
  show ?case
  proof (cases "s df")
    case (Inl e)
    then show ?thesis by simp
  next
    case (Inr d')
    have "s \<noteq> st" using fail(2) [OF Cons.prems(3)] Inr by auto
    then have in_rest: "st \<in> set steps" using Cons.prems(2) by simp
    have P': "P d'" using Cons.prems(1) [of s df d'] Cons.prems(3) Inr by simp
    have "isl (run_steps steps d')"
      using Cons.prems(1) in_rest P' by (intro Cons.IH) auto
    then show ?thesis using Inr by simp
  qed
qed

lemma steps_keep:
  assumes "st \<in> set (indicator_steps ta short_ma long_ma rsi_period sel)"
    and "same_inputs nav vol d" "st d = Inr d'"
  shows "same_inputs nav vol d'"
  using assms
  unfolding indicator_steps_def
  by (auto simp: when_selected_def split: if_splits
      elim: ind_sma_keeps ind_rsi_keeps ind_boll_keeps ind_macd_keeps ind_kdj_keeps
        ind_cci_keeps ind_dmi_keeps ind_bbi_keeps ind_trix_keeps ind_atr_keeps
        ind_obv_keeps ind_mfi_keeps)

lemma some_step_fails:
  assumes "indicator_raises ta nav vol short_ma long_ma rsi_period sel"
  shows "\<exists>st \<in> set (indicator_steps ta short_ma long_ma rsi_period sel).
           \<forall>d. same_inputs nav vol d \<longrightarrow> isl (st d)"
proof -
  have sma: "isl (ta_sma ta nav n) \<Longrightarrow> same_inputs nav vol d \<Longrightarrow> isl (ind_sma ta n d)" for n d
    by (auto simp: ind_sma_def same_inputs_def intro: isl_then_e)
  have rsi: "isl (ta_rsi ta nav n) \<Longrightarrow> same_inputs nav vol d \<Longrightarrow> isl (ind_rsi ta n d)" for n d
    by (auto simp: ind_rsi_def same_inputs_def intro: isl_then_e)
  have boll: "isl (ta_bbands ta nav 20 2) \<Longrightarrow> same_inputs nav vol d \<Longrightarrow> isl (ind_boll ta d)" for d
    by (auto simp: ind_boll_def same_inputs_def intro: isl_then_e)
  have macd: "isl (ta_macd ta nav) \<Longrightarrow> same_inputs nav vol d \<Longrightarrow> isl (ind_macd ta d)" for d
    by (auto simp: ind_macd_def same_inputs_def intro: isl_then_e)
  have kdj: "isl (ta_stoch ta nav nav nav 9 3 3) \<Longrightarrow> same_inputs nav vol d \<Longrightarrow> isl (ind_kdj ta d)" for d
    by (auto simp: ind_kdj_def same_inputs_def intro: isl_then_e)
  have cci: "isl (ta_cci ta nav nav nav 20) \<Longrightarrow> same_inputs nav vol d \<Longrightarrow> isl (ind_cci ta d)" for d
    by (auto simp: ind_cci_def same_inputs_def intro: isl_then_e)
  have dmi: "isl (ta_adx ta nav nav nav 14) \<Longrightarrow> same_inputs nav vol d \<Longrightarrow> isl (ind_dmi ta d)" for d
    by (auto simp: ind_dmi_def same_inputs_def intro: isl_then_e)
  have bbi: "isl (ta_sma ta nav 3) \<or> isl (ta_sma ta nav 6) \<or> isl (ta_sma ta nav 12)
               \<or> isl (ta_sma ta nav 24) \<Longrightarrow> same_inputs nav vol d \<Longrightarrow> isl (ind_bbi ta d)" for d
    by (auto simp: ind_bbi_def same_inputs_def then_e_def split: sum.splits)
  have trix: "isl (ta_trix ta nav 12) \<Longrightarrow> same_inputs nav vol d \<Longrightarrow> isl (ind_trix ta d)" for d
    by (auto simp: ind_trix_def same_inputs_def intro: isl_then_e)
  have atr: "isl (ta_atr ta nav nav nav 14) \<Longrightarrow> same_inputs nav vol d \<Longrightarrow> isl (ind_atr ta d)" for d
    by (auto simp: ind_atr_def same_inputs_def intro: isl_then_e)
  have obv: "obv_raises ta nav vol \<Longrightarrow> same_inputs nav vol d \<Longrightarrow> isl (ind_obv ta d)" for d
    by (auto simp: ind_obv_def same_inputs_def obv_raises_def then_e_def split: sum.splits)
  have mfi: "mfi_raises ta nav vol \<Longrightarrow> same_inputs nav vol d \<Longrightarrow> isl (ind_mfi ta d)" for d
    by (auto simp: ind_mfi_def same_inputs_def mfi_raises_def then_e_def split: sum.splits)
  have sel: "is_selected sel name \<Longrightarrow> isl (step d) \<Longrightarrow> isl (when_selected sel name step d)"
    for name step d by (simp add: when_selected_def)
  from assms consider
      "isl (ta_sma ta nav short_ma)" | "isl (ta_sma ta nav long_ma)" | "isl (ta_rsi ta nav rsi_period)"
    | "is_selected sel ''BOLL''" "isl (ta_bbands ta nav 20 2)"
    | "is_selected sel ''MACD''" "isl (ta_macd ta nav)"
    | "is_selected sel ''KDJ''" "isl (ta_stoch ta nav nav nav 9 3 3)"
    | "is_selected sel ''CCI''" "isl (ta_cci ta nav nav nav 20)"
    | "is_selected sel ''DMI''" "isl (ta_adx ta nav nav nav 14)"
    | "is_selected sel ''BBI''" "isl (ta_sma ta nav 3) \<or> isl (ta_sma ta nav 6)
         \<or> isl (ta_sma ta nav 12) \<or> isl (ta_sma ta nav 24)"
    | "is_selected sel ''TRIX''" "isl (ta_trix ta nav 12)"
    | "is_selected sel ''ATR''" "isl (ta_atr ta nav nav nav 14)"
    | "is_selected sel ''OBV''" "obv_raises ta nav vol"
    | "is_selected sel ''MFI''" "mfi_raises ta nav vol"
    unfolding indicator_raises_def by blast
  then show ?thesis
  proof cases
    case 1
    then have "\<forall>d. same_inputs nav vol d \<longrightarrow> isl (ind_sma ta short_ma d)" using sma by blast
    then show ?thesis unfolding indicator_steps_def by (intro bexI) auto
  next
    case 2
    then have "\<forall>d. same_inputs nav vol d \<longrightarrow> isl (ind_sma ta long_ma d)" using sma by blast
    then show ?thesis unfolding indicator_steps_def by (intro bexI) auto
  next
    case 3
    then have "\<forall>d. same_inputs nav vol d \<longrightarrow> isl (ind_rsi ta rsi_period d)" using rsi by blast
    then show ?thesis unfolding indicator_steps_def by (intro bexI) auto
  next
    case 4
    then have "\<forall>d. same_inputs nav vol d \<longrightarrow> isl (when_selected sel ''BOLL'' (ind_boll ta) d)"
      using boll sel by blast
    then show ?thesis unfolding indicator_steps_def by (intro bexI) auto
  next
    case 5
    then have "\<forall>d. same_inputs nav vol d \<longrightarrow> isl (when_selected sel ''MACD'' (ind_macd ta) d)"
      using macd sel by blast
    then show ?thesis unfolding indicator_steps_def by (intro bexI) auto
  next
    case 6
    then have "\<forall>d. same_inputs nav vol d \<longrightarrow> isl (when_selected sel ''KDJ'' (ind_kdj ta) d)"
      using kdj sel by blast
    then show ?thesis unfolding indicator_steps_def by (intro bexI) auto
  next
    case 7
    then have "\<forall>d. same_inputs nav vol d \<longrightarrow> isl (when_selected sel ''CCI'' (ind_cci ta) d)"
      using cci sel by blast
    then show ?thesis unfolding indicator_steps_def by (intro bexI) auto
  next
    case 8
    then have "\<forall>d. same_inputs nav vol d \<longrightarrow> isl (when_selected sel ''DMI'' (ind_dmi ta) d)"
      using dmi sel by blast
    then show ?thesis unfolding indicator_steps_def by (intro bexI) auto
  next
    case 9
    then have "\<forall>d. same_inputs nav vol d \<longrightarrow> isl (when_selected sel ''BBI'' (ind_bbi ta) d)"
      using bbi sel by blast
    then show ?thesis unfolding indicator_steps_def by (intro bexI) auto
  next
    case 10
    then have "\<forall>d. same_inputs nav vol d \<longrightarrow> isl (when_selected sel ''TRIX'' (ind_trix ta) d)"
      using trix sel by blast
    then show ?thesis unfolding indicator_steps_def by (intro bexI) auto
  next
    case 11
    then have "\<forall>d. same_inputs nav vol d \<longrightarrow> isl (when_selected sel ''ATR'' (ind_atr ta) d)"
      using atr sel by blast
    then show ?thesis unfolding indicator_steps_def by (intro bexI) auto
  next
    case 12
    then have "\<forall>d. same_inputs nav vol d \<longrightarrow> isl (when_selected sel ''OBV'' (ind_obv ta) d)"
      using obv sel by blast
    then show ?thesis unfolding indicator_steps_def by (intro bexI) auto
  next
    case 13
    then have "\<forall>d. same_inputs nav vol d \<longrightarrow> isl (when_selected sel ''MFI'' (ind_mfi ta) d)"
      using mfi sel by blast
    then show ?thesis unfolding indicator_steps_def by (intro bexI) auto
  qed
qed

lemma run_steps_append:
  "run_steps (pre @ rest) df = then_e (run_steps pre df) (run_steps rest)"
  by (induction pre arbitrary: df) (auto split: sum.splits)

lemma run_steps_first_failure:
  "run_steps steps df = Inl e \<Longrightarrow>
     \<exists>pre st post d. steps = pre @ st # post \<and> run_steps pre df = Inr d \<and> st d = Inl e"
proof (induction steps arbitrary: df)
  case Nil
  then show ?case by simp
next
  case (Cons s steps)
  show ?case
  proof (cases "s df")
    case (Inl e')
    with Cons.prems have "e' = e" by simp
    with Inl have "s # steps = [] @ s # steps \<and> run_steps [] df = Inr df \<and> s df = Inl e" by simp
    then show ?thesis by blast
  next
    case (Inr d')
    with Cons.prems have "run_steps steps d' = Inl e" by simp
    from Cons.IH [OF this] obtain pre st post d where
      p: "steps = pre @ st # post" "run_steps pre d' = Inr d" "st d = Inl e" by blast
    have "s # steps = (s # pre) @ st # post \<and> run_steps (s # pre) df = Inr d \<and> st d = Inl e"
      using p Inr by simp
    then show ?thesis by blast
  qed
qed

lemma library_failure_returns_input:
  assumes ne: "\<not> df_empty df" and nav: "getitem df ''nav'' = Inr nav"
    and raises: "indicator_raises ta nav (volume_data df) short_ma long_ma rsi_period sel"
  shows "\<exists>e. calculate_technical_indicators ta (Some df) short_ma long_ma rsi_period sel
               = (Some df, [IndicatorsFailed e])"
proof -
  let ?steps = "indicator_steps ta short_ma long_ma rsi_period sel"
  from some_step_fails [OF raises] obtain st where st: "st \<in> set ?steps"
    and fail: "\<And>d. same_inputs nav (volume_data df) d \<Longrightarrow> isl (st d)" by blast
  have start: "same_inputs nav (volume_data df) df" using nav by (simp add: same_inputs_def)
  have "isl (run_steps ?steps df)"
    by (rule run_steps_fails [where P = "same_inputs nav (volume_data df)" and st = st])
       (use st fail start in \<open>auto elim: steps_keep\<close>)
  then obtain e where "run_steps ?steps df = Inl e" by (cases "run_steps ?steps df") auto
  then show ?thesis using ne by (simp add: calculate_technical_indicators_def)
qed

text \<open>
  Claim C1, as the code has it. The whole computation is one \<^verbatim>\<open>try\<close> block over the
  blocks of the indicators, run in order on a copy of the frame. On a frame with rows,
  when a block raises at its turn, whatever the exception and wherever in the block it
  comes from (a call of the indicator library, the subscript of a \<^verbatim>\<open>None\<close> result or of
  a missing label, the arithmetic on the columns), \<^verbatim>\<open>calculate_technical_indicators\<close>
  reports this exception and returns the frame it was given, unchanged; in particular
  when a call of the library raises on a frame with a price column. No indicator column at
  all is in the result, also not those of the blocks that ran before the failure: all or
  nothing, not isolation of the failing indicator. Conversely a failure is reported only
  when a block raised at its turn, and with no report the result is the frame all blocks
  have filled.
\<close>

theorem one_failure_returns_input:
  assumes ne: "\<not> df_empty df"
  shows "(\<forall>pre st post d e.
            indicator_steps ta short_ma long_ma rsi_period sel = pre @ st # post
            \<longrightarrow> run_steps pre df = Inr d \<longrightarrow> st d = Inl e
            \<longrightarrow> calculate_technical_indicators ta (Some df) short_ma long_ma rsi_period sel
                  = (Some df, [IndicatorsFailed e]))
       \<and> (\<forall>nav. getitem df ''nav'' = Inr nav
            \<longrightarrow> indicator_raises ta nav (volume_data df) short_ma long_ma rsi_period sel
            \<longrightarrow> (\<exists>e. calculate_technical_indicators ta (Some df) short_ma long_ma rsi_period sel
                       = (Some df, [IndicatorsFailed e])))
       \<and> (\<forall>r e lg.
            calculate_technical_indicators ta (Some df) short_ma long_ma rsi_period sel
              = (r, IndicatorsFailed e # lg)
            \<longrightarrow> r = Some df \<and> lg = []
                \<and> (\<exists>pre st post d.
                      indicator_steps ta short_ma long_ma rsi_period sel = pre @ st # post
                      \<and> run_steps pre df = Inr d \<and> st d = Inl e))
       \<and> (\<forall>r. calculate_technical_indicators ta (Some df) short_ma long_ma rsi_period sel = (r, [])
            \<longrightarrow> (\<exists>d. r = Some d
                       \<and> run_steps (indicator_steps ta short_ma long_ma rsi_period sel) df = Inr d))"
proof (intro conjI allI impI)
  fix pre st post d e
  assume "indicator_steps ta short_ma long_ma rsi_period sel = pre @ st # post"
    "run_steps pre df = Inr d" "st d = Inl e"
  then have "run_steps (indicator_steps ta short_ma long_ma rsi_period sel) df = Inl e"
    by (simp add: run_steps_append)
  then show "calculate_technical_indicators ta (Some df) short_ma long_ma rsi_period sel
               = (Some df, [IndicatorsFailed e])"
    using ne by (simp add: calculate_technical_indicators_def)
next
  fix nav
  assume "getitem df ''nav'' = Inr nav"
    "indicator_raises ta nav (volume_data df) short_ma long_ma rsi_period sel"
  then show "\<exists>e. calculate_technical_indicators ta (Some df) short_ma long_ma rsi_period sel
               = (Some df, [IndicatorsFailed e])"
    by (rule library_failure_returns_input [OF ne])
next
  fix r e lg
  assume c: "calculate_technical_indicators ta (Some df) short_ma long_ma rsi_period sel
               = (r, IndicatorsFailed e # lg)"
  then have f: "run_steps (indicator_steps ta short_ma long_ma rsi_period sel) df = Inl e"
    and r: "r = Some df" "lg = []"
    using ne by (auto simp: calculate_technical_indicators_def split: sum.splits)
  from r show "r = Some df" "lg = []" by simp_all
  from run_steps_first_failure [OF f]
  show "\<exists>pre st post d.
          indicator_steps ta short_ma long_ma rsi_period sel = pre @ st # post
          \<and> run_steps pre df = Inr d \<and> st d = Inl e" .
next
  fix r
  assume "calculate_technical_indicators ta (Some df) short_ma long_ma rsi_period sel = (r, [])"
  then show "\<exists>d. r = Some d
               \<and> run_steps (indicator_steps ta short_ma long_ma rsi_period sel) df = Inr d"
    using ne by (auto simp: calculate_technical_indicators_def split: sum.splits)
qed

lemmas eval_indicators = calculate_technical_indicators_def indicator_steps_def when_selected_def
  is_selected_def ind_sma_def ind_rsi_def ind_boll_def ind_macd_def ind_kdj_def ind_cci_def
  ind_dmi_def ind_bbi_def ind_trix_def ind_atr_def ind_obv_def ind_mfi_def volume_data_def
  setitem_ta_def ta_getitem_def series_floats_def series_op_def align_f_def setitem_def
  align_def macd_raises_ta_def echo_ta_def

text \<open>When MACD alone raises, the moving average and the Bollinger bands, which the
  library computed, are not in the result either.\<close>

theorem macd_failure_loses_all_columns:
  "calculate_technical_indicators macd_raises_ta (Some one_row_frame) 20 60 14
       (Some [''BOLL'', ''MACD''])
     = (Some one_row_frame, [IndicatorsFailed LibraryError])
   \<and> \<not> has_col one_row_frame ''MA20''
   \<and> \<not> has_col one_row_frame ''BOLL_UPPER''
   \<and> ta_sma macd_raises_ta [Num 1] 20 = Inr (TaSeries [Num 1])
   \<and> ta_bbands macd_raises_ta [Num 1] 20 2
        = Inr (TaFrame [(''BBL_20_2.0_2.0'', [Num 1]), (''BBM_20_2.0_2.0'', [Num 1]),
                        (''BBU_20_2.0_2.0'', [Num 1])])"
  by (simp add: eval_indicators one_row_frame_def eval_frame)

theorem one_failure_returns_input_witness:
  "\<not> df_empty one_row_frame
   \<and> \<not> indicator_raises macd_none_ta [Num 1] (volume_data one_row_frame) 5 20 7 (Some [''MACD''])
   \<and> run_steps [ind_sma macd_none_ta 5, ind_sma macd_none_ta 20, ind_rsi macd_none_ta 7,
                 when_selected (Some [''MACD'']) ''BOLL'' (ind_boll macd_none_ta)] one_row_frame
       = Inr [(''date'', [Day 1]), (''nav'', [Num 1]), (''MA5'', [Num 1]), (''MA20'', [Num 1]),
              (''RSI7'', [Num 1])]
   \<and> when_selected (Some [''MACD'']) ''MACD'' (ind_macd macd_none_ta)
         [(''date'', [Day 1]), (''nav'', [Num 1]), (''MA5'', [Num 1]), (''MA20'', [Num 1]),
          (''RSI7'', [Num 1])]
       = Inl TypeError
   \<and> calculate_technical_indicators macd_none_ta (Some one_row_frame) 5 20 7 (Some [''MACD''])
       = (Some one_row_frame, [IndicatorsFailed TypeError])"
proof -
  let ?sel = "Some [''MACD'']"
  let ?d = "[(''date'', [Day 1]), (''nav'', [Num 1]), (''MA5'', [Num 1]), (''MA20'', [Num 1]),
             (''RSI7'', [Num 1])]"
  have ne: "\<not> df_empty one_row_frame" by (simp add: one_row_frame_def eval_frame)
  have nr: "\<not> indicator_raises macd_none_ta [Num 1] (volume_data one_row_frame) 5 20 7 ?sel"
    by (simp add: indicator_raises_def macd_none_ta_def echo_ta_def is_selected_def)
  have steps: "indicator_steps macd_none_ta 5 20 7 ?sel =
      [ind_sma macd_none_ta 5, ind_sma macd_none_ta 20, ind_rsi macd_none_ta 7,
       when_selected ?sel ''BOLL'' (ind_boll macd_none_ta)]
      @ when_selected ?sel ''MACD'' (ind_macd macd_none_ta)
      # [when_selected ?sel ''KDJ'' (ind_kdj macd_none_ta),
         when_selected ?sel ''CCI'' (ind_cci macd_none_ta),
         when_selected ?sel ''DMI'' (ind_dmi macd_none_ta),
         when_selected ?sel ''BBI'' (ind_bbi macd_none_ta),
         when_selected ?sel ''TRIX'' (ind_trix macd_none_ta),
         when_selected ?sel ''ATR'' (ind_atr macd_none_ta),
         when_selected ?sel ''OBV'' (ind_obv macd_none_ta),
         when_selected ?sel ''MFI'' (ind_mfi macd_none_ta)]"
    by (simp add: indicator_steps_def)
  have pre: "run_steps [ind_sma macd_none_ta 5, ind_sma macd_none_ta 20, ind_rsi macd_none_ta 7,
                 when_selected ?sel ''BOLL'' (ind_boll macd_none_ta)] one_row_frame = Inr ?d"
    by (simp add: eval_indicators macd_none_ta_def one_row_frame_def eval_frame)
  have st: "when_selected ?sel ''MACD'' (ind_macd macd_none_ta) ?d = Inl TypeError"
    by (simp add: eval_indicators macd_none_ta_def eval_frame)
  from one_failure_returns_input [OF ne, of macd_none_ta 5 20 7 ?sel]
  have "calculate_technical_indicators macd_none_ta (Some one_row_frame) 5 20 7 ?sel
       = (Some one_row_frame, [IndicatorsFailed TypeError])"
    using steps pre st by blast
  with ne nr pre st show ?thesis by simp
qed

end
